theory Spec2Isabelle
  imports Main "HOL-Library.AList"
begin

section \<open>The bus service: two variants of one Express application\<close>

text \<open>
  The repository holds the same server twice: \<^verbatim>\<open>src/server.js\<close> (Estonian messages, a
  presence check in front of bus creation, update validators switched on, no logout
  route) and \<^verbatim>\<open>src/unnamed/part_001\<close> (English messages, Swagger annotations, a logout
  route, no presence check). Every handler below takes the variant as its first
  argument and differs between the two exactly where the two files differ.

  The handlers call into Express, express-session, Mongoose and bcrypt. Those
  libraries are not part of the repository. What the handlers need from them is
  modelled as follows.
  \<^item> The database is reachable: a query or a write fails only because a value cannot
    be cast to the type its schema declares, or because a validator of the schema
    rejects it.
  \<^item> A collection is the list of its documents in insertion order. An ObjectId is a
    natural number drawn from a counter that advances when a document is stored.
  \<^item> The session store is the default in-memory store of express-session: an
    association list from session ids to session data. A session id is a natural
    number drawn from a counter that advances when a new session is stored.
  \<^item> Primitives whose results the source does not determine are fields of the record
    \<open>ext\<close>: the bcrypt functions, JavaScript's conversion of a string to a number,
    the parsing of a path parameter as an ObjectId, and three behaviours of Mongoose
    that differ between its versions.
  \<^item> A field of a JSON request body is absent, null, a boolean, a number or a string.
    A number is an integer that a JavaScript number holds exactly and prints in decimal
    notation (magnitude up to \<open>2 ^ 53\<close>); fractions, larger magnitudes, arrays and nested
    objects are left out.
\<close>

datatype variant = ServerJs | Part001

subsection \<open>JavaScript values\<close>

datatype jsval = JUndefined | JNull | JBool bool | JNum int | JStr string

text \<open>JavaScript's truthiness, as used by \<^verbatim>\<open>!x\<close> and \<^verbatim>\<open>x || y\<close>.\<close>

fun truthy :: "jsval \<Rightarrow> bool" where
  "truthy JUndefined = False"
| "truthy JNull = False"
| "truthy (JBool b) = b"
| "truthy (JNum n) = (n \<noteq> 0)"
| "truthy (JStr s) = (s \<noteq> [])"

text \<open>\<^verbatim>\<open>a || b\<close>\<close>

definition js_or :: "jsval \<Rightarrow> jsval \<Rightarrow> jsval" where
  "js_or a b = (if truthy a then a else b)"

text \<open>
  \<^verbatim>\<open>String(n)\<close> for an integer \<open>n\<close> in the range above: its decimal digits, with a minus
  sign below zero. (From \<open>10 ^ 21\<close> on JavaScript prints an exponent instead.)
\<close>

fun digits_of :: "nat \<Rightarrow> string" where
  "digits_of n =
     (if n < 10 then [char_of (48 + n)]
      else digits_of (n div 10) @ [char_of (48 + n mod 10)])"

definition js_number_to_string :: "int \<Rightarrow> string" where
  "js_number_to_string n =
     (if n < 0 then CHR ''-'' # digits_of (nat (- n)) else digits_of (nat n))"

subsection \<open>External primitives\<close>

text \<open>
  \<^item> \<open>bcrypt_hash p\<close>: the string \<^verbatim>\<open>bcrypt.hash(p, 10)\<close> resolves to;
  \<^item> \<open>bcrypt_compare p h\<close>: what \<^verbatim>\<open>bcrypt.compare(p, h)\<close> resolves to;
  \<^item> \<open>js_to_number s\<close>: \<^verbatim>\<open>Number(s)\<close> for a non-empty string, \<open>None\<close> for NaN;
  \<^item> \<open>parse_object_id s\<close>: the ObjectId a path parameter denotes, \<open>None\<close> when
    Mongoose cannot cast the string to an ObjectId;
  \<^item> \<open>omit_undefined\<close>: whether a key whose value is \<^verbatim>\<open>undefined\<close> is removed from an
    update document (Mongoose 6 and later) or sent to the database, which stores
    null (Mongoose 5 without its \<^verbatim>\<open>omitUndefined\<close> option);
  \<^item> \<open>enum_accepts_null\<close>: whether the \<^verbatim>\<open>enum\<close> validator of a string path lets null pass;
  \<^item> \<open>undefined_matches_all\<close>: whether a query filter whose only key is \<^verbatim>\<open>undefined\<close>
    is the empty filter, which every document matches, or a test for null, which no
    stored user matches.
\<close>

record ext =
  bcrypt_hash :: "string \<Rightarrow> string"
  bcrypt_compare :: "string \<Rightarrow> string \<Rightarrow> bool"
  js_to_number :: "string \<Rightarrow> int option"
  parse_object_id :: "string \<Rightarrow> nat option"
  omit_undefined :: bool
  enum_accepts_null :: bool
  undefined_matches_all :: bool

subsection \<open>Casting to the types of a schema\<close>

text \<open>
  The result of casting a value to the type of a schema path: the cast fails, the value
  is \<^verbatim>\<open>undefined\<close> or null (both pass through a cast unchanged), or it is a value of
  the type.
\<close>

datatype 'a cast = CastError | Missing | IsNull | Val 'a

text \<open>\<^verbatim>\<open>type: String\<close>: numbers and booleans are converted with their \<^verbatim>\<open>toString\<close>.\<close>

fun cast_string :: "jsval \<Rightarrow> string cast" where
  "cast_string JUndefined = Missing"
| "cast_string JNull = IsNull"
| "cast_string (JBool b) = Val (if b then ''true'' else ''false'')"
| "cast_string (JNum n) = Val (js_number_to_string n)"
| "cast_string (JStr s) = Val s"

text \<open>
  \<^verbatim>\<open>type: Number\<close>: the empty string becomes null, any other string goes through
  \<^verbatim>\<open>Number\<close> and NaN is a cast error, a boolean becomes 1 or 0.
\<close>

fun cast_number :: "ext \<Rightarrow> jsval \<Rightarrow> int cast" where
  "cast_number x JUndefined = Missing"
| "cast_number x JNull = IsNull"
| "cast_number x (JBool b) = Val (if b then 1 else 0)"
| "cast_number x (JNum n) = Val n"
| "cast_number x (JStr s) =
     (if s = [] then IsNull
      else (case js_to_number x s of None \<Rightarrow> CastError | Some n \<Rightarrow> Val n))"

text \<open>
  \<^verbatim>\<open>required: true\<close>: a string path needs a non-empty string, a number path a number.
  The result is the value to store, or \<open>None\<close> when casting or the validator fails.
\<close>

fun required_string :: "string cast \<Rightarrow> string option" where
  "required_string (Val s) = (if s = [] then None else Some s)"
| "required_string _ = None"

fun required_number :: "int cast \<Rightarrow> int option" where
  "required_number (Val n) = Some n"
| "required_number _ = None"

subsection \<open>Documents, sessions, the state of the server\<close>

text \<open>
  \<^verbatim>\<open>userSchema\<close> (server.js 45-49, part_001 60-64). A stored role is a string, or null
  (\<open>None\<close>) where the enum validator accepts null.
\<close>

record user =
  u_id :: nat
  username :: string
  password :: string
  u_role :: "string option"

text \<open>
  \<^verbatim>\<open>busSchema\<close> (server.js 33-40, part_001 50-57). A stored field is \<open>None\<close> when the
  database holds null for it, which an update without validators can write.
\<close>

record bus =
  b_id :: nat
  b_busNumber :: "string option"
  b_seats :: "int option"
  b_route :: "string option"
  b_departurePoint :: "string option"
  b_destinationPoint :: "string option"
  b_departureTime :: "string option"

text \<open>The six fields the bus handlers destructure from \<^verbatim>\<open>req.body\<close>.\<close>

record bus_body =
  busNumber :: jsval
  seats :: jsval
  route :: jsval
  departurePoint :: jsval
  destinationPoint :: jsval
  departureTime :: jsval

text \<open>\<^verbatim>\<open>req.session\<close>: \<open>None\<close> is a property that was never set, or is null.\<close>

record session =
  sess_userId :: "nat option"
  sess_role :: "string option"

definition empty_session :: session where
  "empty_session = \<lparr>sess_userId = None, sess_role = None\<rparr>"

record state =
  users :: "user list"
  buses :: "bus list"
  sessions :: "(nat \<times> session) list"
  next_oid :: nat
  next_sid :: nat

subsection \<open>Responses\<close>

datatype msg =
    AuthRequired | AdminRequired
  | UserExists | Registered | RegisterError
  | InvalidCredentials | LoggedIn | LoginError
  | ListError
  | BusNotFoundOnDelete | BusDeleted | DeleteError
  | BusNotFoundOnUpdate | BusUpdated | UpdateError
  | FillAllFields | BusAdded | AddError
  | LogoutError | LoggedOut

definition a_uml :: string where
  "a_uml = [CHR 0xC3, CHR 0xA4]"

definition o_tilde :: string where
  "o_tilde = [CHR 0xC3, CHR 0xB5]"

text \<open>
  The message texts of the two files (UTF-8 bytes). server.js has no logout route and
  part_001 has no presence check, so three entries have no text in the source.
\<close>

fun text_of :: "variant \<Rightarrow> msg \<Rightarrow> string" where
  "text_of ServerJs AuthRequired = ''Autentimine on vajalik''"
| "text_of ServerJs AdminRequired =
     ''Juurdep'' @ a_uml @ a_uml @ ''s keelatud. Vajalik administraatori roll.''"
| "text_of ServerJs UserExists = ''Kasutaja on juba olemas''"
| "text_of ServerJs Registered = ''Kasutaja loodud''"
| "text_of ServerJs RegisterError = ''Viga registreerimisel''"
| "text_of ServerJs InvalidCredentials = ''Vale kasutajanimi v'' @ o_tilde @ ''i parool''"
| "text_of ServerJs LoggedIn = ''Sisselogimine '' @ o_tilde @ ''nnestus''"
| "text_of ServerJs LoginError = ''Viga sisselogimisel''"
| "text_of ServerJs ListError = ''Viga busside hankimisel''"
| "text_of ServerJs BusNotFoundOnDelete = ''Bussi ei leitud''"
| "text_of ServerJs BusDeleted = ''Buss kustutatud''"
| "text_of ServerJs DeleteError = ''Viga bussi kustutamisel''"
| "text_of ServerJs BusNotFoundOnUpdate = ''Buss ei leitud''"
| "text_of ServerJs BusUpdated = ''Buss on uuendatud''"
| "text_of ServerJs UpdateError = ''Serveri viga bussi muutmisel''"
| "text_of ServerJs FillAllFields =
     ''Palun t'' @ a_uml @ ''itke k'' @ o_tilde @ ''ik v'' @ a_uml @ ''ljad''"
| "text_of ServerJs BusAdded = ''Buss on edukalt lisatud''"
| "text_of ServerJs AddError = ''Serveri viga bussi lisamisel''"
| "text_of ServerJs LogoutError = []"
| "text_of ServerJs LoggedOut = []"
| "text_of Part001 AuthRequired = ''Authentication required''"
| "text_of Part001 AdminRequired = ''Admin access required''"
| "text_of Part001 UserExists = ''User already exists''"
| "text_of Part001 Registered = ''User registered successfully''"
| "text_of Part001 RegisterError = ''Error registering user''"
| "text_of Part001 InvalidCredentials = ''Invalid username or password''"
| "text_of Part001 LoggedIn = ''Login successful''"
| "text_of Part001 LoginError = ''Error logging in''"
| "text_of Part001 ListError = ''Error fetching buses''"
| "text_of Part001 BusNotFoundOnDelete = ''Bus not found''"
| "text_of Part001 BusDeleted = ''Bus deleted successfully''"
| "text_of Part001 DeleteError = ''Error deleting bus''"
| "text_of Part001 BusNotFoundOnUpdate = ''Bus not found''"
| "text_of Part001 BusUpdated = ''Bus updated successfully''"
| "text_of Part001 UpdateError = ''Error updating bus''"
| "text_of Part001 FillAllFields = []"
| "text_of Part001 BusAdded = ''Bus added successfully''"
| "text_of Part001 AddError = ''Error adding bus''"
| "text_of Part001 LogoutError = ''Error logging out''"
| "text_of Part001 LoggedOut = ''Logout successful''"

text \<open>
  The JSON bodies the handlers send: \<^verbatim>\<open>{message}\<close>, \<^verbatim>\<open>{message, role, userId}\<close>, the
  array of buses, \<^verbatim>\<open>{message, bus}\<close>, and the page Express answers with when no
  route matches.
\<close>

datatype body =
    Message string
  | UserInfo string "string option" nat
  | BusList "bus list"
  | BusInfo string bus
  | NoRoute

datatype response = Response (status: nat) (body: body)

definition reply :: "variant \<Rightarrow> nat \<Rightarrow> msg \<Rightarrow> response" where
  "reply v code m = Response code (Message (text_of v m))"

subsection \<open>express-session\<close>

text \<open>
  The session middleware (server.js 25-30, part_001 26-31). A request carries a cookie
  with a session id, or none. When the store holds data under that id the request sees
  it; otherwise the request sees a new, empty session under a new id.
\<close>

definition live_sid :: "state \<Rightarrow> nat option \<Rightarrow> nat option" where
  "live_sid s cookie =
     (case cookie of
        None \<Rightarrow> None
      | Some sid \<Rightarrow> (case map_of (sessions s) sid of None \<Rightarrow> None | Some d \<Rightarrow> Some sid))"

definition load_session :: "state \<Rightarrow> nat option \<Rightarrow> session" where
  "load_session s cookie =
     (case cookie of
        None \<Rightarrow> empty_session
      | Some sid \<Rightarrow> (case map_of (sessions s) sid of None \<Rightarrow> empty_session | Some d \<Rightarrow> d))"

text \<open>
  At the end of a request a session the handler has modified is written to the store,
  under the id it was loaded from or under a new one. With \<^verbatim>\<open>resave: false\<close> and
  \<^verbatim>\<open>saveUninitialized: false\<close> an unmodified session is not written.
\<close>

definition save_session :: "state \<Rightarrow> nat option \<Rightarrow> session \<Rightarrow> state" where
  "save_session s cookie d =
     (case live_sid s cookie of
        Some sid \<Rightarrow> s\<lparr>sessions := AList.update sid d (sessions s)\<rparr>
      | None \<Rightarrow>
          s\<lparr>sessions := AList.update (next_sid s) d (sessions s),
            next_sid := Suc (next_sid s)\<rparr>)"

text \<open>
  \<^verbatim>\<open>req.session.destroy(callback)\<close>: the in-memory store deletes the entry and never passes
  an error to the callback.
\<close>

definition session_destroy :: "state \<Rightarrow> nat option \<Rightarrow> unit + state" where
  "session_destroy s cookie =
     (case cookie of
        None \<Rightarrow> Inr s
      | Some sid \<Rightarrow> Inr (s\<lparr>sessions := AList.delete sid (sessions s)\<rparr>))"

subsection \<open>The two guards\<close>

text \<open>
  \<^verbatim>\<open>authRequired\<close> (server.js 53-58, part_001 68-73). \<open>Some r\<close>: the guard has answered
  with \<open>r\<close>; \<open>None\<close>: it has called \<^verbatim>\<open>next()\<close>.
\<close>

definition authRequired :: "variant \<Rightarrow> session \<Rightarrow> response option" where
  "authRequired v sess =
     (if sess_userId sess = None then Some (reply v 401 AuthRequired) else None)"

text \<open>
  \<^verbatim>\<open>adminRequired\<close>: server.js 61-66 tests \<^verbatim>\<open>!role || role !== 'admin'\<close>, part_001 75-80
  tests \<^verbatim>\<open>role !== 'admin'\<close>.
\<close>

definition adminRequired :: "variant \<Rightarrow> session \<Rightarrow> response option" where
  "adminRequired v sess =
     (case v of
        ServerJs \<Rightarrow>
          (if (sess_role sess = None \<or> sess_role sess = Some []) \<or> sess_role sess \<noteq> Some ''admin''
           then Some (reply v 403 AdminRequired) else None)
      | Part001 \<Rightarrow>
          (if sess_role sess \<noteq> Some ''admin'' then Some (reply v 403 AdminRequired) else None))"

text \<open>A route registered as \<^verbatim>\<open>authRequired, adminRequired, handler\<close>.\<close>

definition guarded :: "variant \<Rightarrow> state \<Rightarrow> nat option \<Rightarrow> response \<times> state \<Rightarrow> response \<times> state" where
  "guarded v s cookie handler =
     (case authRequired v (load_session s cookie) of
        Some r \<Rightarrow> (r, s)
      | None \<Rightarrow>
          (case adminRequired v (load_session s cookie) of
             Some r \<Rightarrow> (r, s)
           | None \<Rightarrow> handler))"

subsection \<open>Users\<close>

text \<open>
  \<^verbatim>\<open>User.findOne({ username })\<close>: the first user whose name is the queried value cast to
  a string. No stored user has a null name.
\<close>

definition findOne_user :: "ext \<Rightarrow> user list \<Rightarrow> jsval \<Rightarrow> user option" where
  "findOne_user x us q =
     (case cast_string q of
        Val n \<Rightarrow> find (\<lambda>u. username u = n) us
      | Missing \<Rightarrow>
          (if undefined_matches_all x then (case us of [] \<Rightarrow> None | u # rest \<Rightarrow> Some u)
           else None)
      | IsNull \<Rightarrow> None
      | CastError \<Rightarrow> None)"

text \<open>
  The \<^verbatim>\<open>role\<close> path: \<^verbatim>\<open>enum: ['user', 'admin'], default: 'user'\<close>. The default replaces
  \<^verbatim>\<open>undefined\<close> only. \<open>None\<close>: the document does not validate.
\<close>

definition role_path :: "ext \<Rightarrow> jsval \<Rightarrow> string option option" where
  "role_path x r =
     (case cast_string r of
        CastError \<Rightarrow> None
      | Missing \<Rightarrow> Some (Some ''user'')
      | IsNull \<Rightarrow> (if enum_accepts_null x then Some None else None)
      | Val t \<Rightarrow> (if t = ''user'' \<or> t = ''admin'' then Some (Some t) else None))"

text \<open>
  \<^verbatim>\<open>new User({...})\<close> followed by \<^verbatim>\<open>save()\<close>: the document that is stored, or \<open>None\<close> when
  \<^verbatim>\<open>save()\<close> rejects (a required path is missing, the role is outside the enum, or the
  unique index on \<^verbatim>\<open>username\<close> already holds the name).
\<close>

definition new_user :: "ext \<Rightarrow> state \<Rightarrow> jsval \<Rightarrow> string \<Rightarrow> jsval \<Rightarrow> user option" where
  "new_user x s uname hashed r =
     (case required_string (cast_string uname) of
        None \<Rightarrow> None
      | Some n \<Rightarrow>
          (case required_string (Val hashed) of
             None \<Rightarrow> None
           | Some h \<Rightarrow>
               (case role_path x r of
                  None \<Rightarrow> None
                | Some t \<Rightarrow>
                    (if find (\<lambda>u. username u = n) (users s) \<noteq> None then None
                     else Some \<lparr>u_id = next_oid s, username = n, password = h, u_role = t\<rparr>))))"

text \<open>
  \<^verbatim>\<open>app.post('/register')\<close> (server.js 69-87, part_001 107-125). server.js passes
  \<^verbatim>\<open>role || 'user'\<close> to the constructor, part_001 passes \<^verbatim>\<open>role\<close>. \<^verbatim>\<open>bcrypt.hash\<close>
  rejects a password that is not a string.
\<close>

definition register ::
  "variant \<Rightarrow> ext \<Rightarrow> state \<Rightarrow> nat option \<Rightarrow> jsval \<Rightarrow> jsval \<Rightarrow> jsval \<Rightarrow> response \<times> state" where
  "register v x s cookie uname pw r =
     (case findOne_user x (users s) uname of
        Some existingUser \<Rightarrow> (reply v 400 UserExists, s)
      | None \<Rightarrow>
          (case pw of
             JStr p \<Rightarrow>
               (case new_user x s uname (bcrypt_hash x p)
                       (case v of ServerJs \<Rightarrow> js_or r (JStr ''user'') | Part001 \<Rightarrow> r) of
                  None \<Rightarrow> (reply v 500 RegisterError, s)
                | Some newUser \<Rightarrow>
                    (Response 201 (UserInfo (text_of v Registered) (u_role newUser) (u_id newUser)),
                     save_session
                       (s\<lparr>users := users s @ [newUser], next_oid := Suc (next_oid s)\<rparr>) cookie
                       ((load_session s cookie)
                          \<lparr>sess_userId := Some (u_id newUser), sess_role := u_role newUser\<rparr>)))
           | _ \<Rightarrow> (reply v 500 RegisterError, s)))"

text \<open>
  \<^verbatim>\<open>app.post('/login')\<close> (server.js 90-104, part_001 149-163). \<^verbatim>\<open>bcrypt.compare\<close>
  rejects a password that is not a string.
\<close>

definition login ::
  "variant \<Rightarrow> ext \<Rightarrow> state \<Rightarrow> nat option \<Rightarrow> jsval \<Rightarrow> jsval \<Rightarrow> response \<times> state" where
  "login v x s cookie uname pw =
     (case findOne_user x (users s) uname of
        None \<Rightarrow> (reply v 401 InvalidCredentials, s)
      | Some u \<Rightarrow>
          (case pw of
             JStr p \<Rightarrow>
               (if \<not> bcrypt_compare x p (password u) then (reply v 401 InvalidCredentials, s)
                else
                  (Response 200 (UserInfo (text_of v LoggedIn) (u_role u) (u_id u)),
                   save_session s cookie
                     ((load_session s cookie)
                        \<lparr>sess_userId := Some (u_id u), sess_role := u_role u\<rparr>)))
           | _ \<Rightarrow> (reply v 500 LoginError, s)))"

text \<open>
  \<^verbatim>\<open>app.post('/logout')\<close> (part_001 325-333). server.js registers no such route, so
  Express answers 404 there.
\<close>

definition logout :: "variant \<Rightarrow> state \<Rightarrow> nat option \<Rightarrow> response \<times> state" where
  "logout v s cookie =
     (case v of
        ServerJs \<Rightarrow> (Response 404 NoRoute, s)
      | Part001 \<Rightarrow>
          (case session_destroy s cookie of
             Inl err \<Rightarrow> (reply v 500 LogoutError, s)
           | Inr s' \<Rightarrow> (reply v 200 LoggedOut, s')))"

subsection \<open>Buses\<close>

text \<open>\<^verbatim>\<open>app.get('/api/buses')\<close> (server.js 107-115, part_001 174-182).\<close>

definition list_buses :: "variant \<Rightarrow> state \<Rightarrow> response \<times> state" where
  "list_buses v s = (Response 200 (BusList (buses s)), s)"

text \<open>
  \<^verbatim>\<open>new Bus({...})\<close> followed by \<^verbatim>\<open>save()\<close>: all six paths are required. The document
  with id \<open>i\<close>, or \<open>None\<close> when \<^verbatim>\<open>save()\<close> rejects.
\<close>

definition new_bus :: "ext \<Rightarrow> nat \<Rightarrow> bus_body \<Rightarrow> bus option" where
  "new_bus x i b =
     (case required_string (cast_string (busNumber b)) of None \<Rightarrow> None | Some bn \<Rightarrow>
     (case required_number (cast_number x (seats b)) of None \<Rightarrow> None | Some n \<Rightarrow>
     (case required_string (cast_string (route b)) of None \<Rightarrow> None | Some r \<Rightarrow>
     (case required_string (cast_string (departurePoint b)) of None \<Rightarrow> None | Some dp \<Rightarrow>
     (case required_string (cast_string (destinationPoint b)) of None \<Rightarrow> None | Some ds \<Rightarrow>
     (case required_string (cast_string (departureTime b)) of None \<Rightarrow> None | Some dt \<Rightarrow>
        Some \<lparr>b_id = i, b_busNumber = Some bn, b_seats = Some n, b_route = Some r,
              b_departurePoint = Some dp, b_destinationPoint = Some ds,
              b_departureTime = Some dt\<rparr>))))))"

text \<open>The test of server.js 153: some field is falsy.\<close>

definition some_field_falsy :: "bus_body \<Rightarrow> bool" where
  "some_field_falsy b =
     (\<not> truthy (busNumber b) \<or> \<not> truthy (seats b) \<or> \<not> truthy (route b) \<or>
      \<not> truthy (departurePoint b) \<or> \<not> truthy (destinationPoint b) \<or>
      \<not> truthy (departureTime b))"

text \<open>
  \<^verbatim>\<open>app.post('/api/buses')\<close> (server.js 149-165, part_001 214-224). Only server.js tests
  the fields before it builds the document.
\<close>

definition create_bus ::
  "variant \<Rightarrow> ext \<Rightarrow> state \<Rightarrow> nat option \<Rightarrow> bus_body \<Rightarrow> response \<times> state" where
  "create_bus v x s cookie b =
     guarded v s cookie
       (if v = ServerJs \<and> some_field_falsy b then (reply v 400 FillAllFields, s)
        else
          (case new_bus x (next_oid s) b of
             None \<Rightarrow> (reply v 500 AddError, s)
           | Some newBus \<Rightarrow>
               (Response 201 (BusInfo (text_of v BusAdded) newBus),
                s\<lparr>buses := buses s @ [newBus], next_oid := Suc (next_oid s)\<rparr>)))"

text \<open>
  One path of the update document \<^verbatim>\<open>{busNumber, seats, ...}\<close> after casting: the path is
  left alone, or set to a value or to null. \<open>None\<close>: the cast fails, or update validators
  run (\<^verbatim>\<open>runValidators: true\<close>) and \<^verbatim>\<open>required\<close> rejects the value.
\<close>

datatype 'a change = Keep | SetTo "'a option"

definition update_path ::
  "ext \<Rightarrow> bool \<Rightarrow> ('a \<Rightarrow> bool) \<Rightarrow> 'a cast \<Rightarrow> 'a change option" where
  "update_path x validators is_empty c =
     (case c of
        CastError \<Rightarrow> None
      | Missing \<Rightarrow>
          (if omit_undefined x then Some Keep
           else if validators then None else Some (SetTo None))
      | IsNull \<Rightarrow> (if validators then None else Some (SetTo None))
      | Val a \<Rightarrow> (if validators \<and> is_empty a then None else Some (SetTo (Some a))))"

record bus_update =
  set_busNumber :: "string change"
  set_seats :: "int change"
  set_route :: "string change"
  set_departurePoint :: "string change"
  set_destinationPoint :: "string change"
  set_departureTime :: "string change"

definition cast_update :: "ext \<Rightarrow> bool \<Rightarrow> bus_body \<Rightarrow> bus_update option" where
  "cast_update x validators b =
     (case update_path x validators (\<lambda>s. s = []) (cast_string (busNumber b)) of None \<Rightarrow> None | Some bn \<Rightarrow>
     (case update_path x validators (\<lambda>n. False) (cast_number x (seats b)) of None \<Rightarrow> None | Some n \<Rightarrow>
     (case update_path x validators (\<lambda>s. s = []) (cast_string (route b)) of None \<Rightarrow> None | Some r \<Rightarrow>
     (case update_path x validators (\<lambda>s. s = []) (cast_string (departurePoint b)) of None \<Rightarrow> None | Some dp \<Rightarrow>
     (case update_path x validators (\<lambda>s. s = []) (cast_string (destinationPoint b)) of None \<Rightarrow> None | Some ds \<Rightarrow>
     (case update_path x validators (\<lambda>s. s = []) (cast_string (departureTime b)) of None \<Rightarrow> None | Some dt \<Rightarrow>
        Some \<lparr>set_busNumber = bn, set_seats = n, set_route = r, set_departurePoint = dp,
              set_destinationPoint = ds, set_departureTime = dt\<rparr>))))))"

fun apply_change :: "'a change \<Rightarrow> 'a option \<Rightarrow> 'a option" where
  "apply_change Keep old = old"
| "apply_change (SetTo new) old = new"

definition apply_update :: "bus_update \<Rightarrow> bus \<Rightarrow> bus" where
  "apply_update u b =
     \<lparr>b_id = b_id b,
      b_busNumber = apply_change (set_busNumber u) (b_busNumber b),
      b_seats = apply_change (set_seats u) (b_seats b),
      b_route = apply_change (set_route u) (b_route b),
      b_departurePoint = apply_change (set_departurePoint u) (b_departurePoint b),
      b_destinationPoint = apply_change (set_destinationPoint u) (b_destinationPoint b),
      b_departureTime = apply_change (set_departureTime u) (b_departureTime b)\<rparr>"

text \<open>The first document with a given id: found, replaced, removed.\<close>

definition find_by_id :: "nat \<Rightarrow> bus list \<Rightarrow> bus option" where
  "find_by_id i bs = find (\<lambda>b. b_id b = i) bs"

fun replace_first :: "nat \<Rightarrow> bus \<Rightarrow> bus list \<Rightarrow> bus list" where
  "replace_first i b' [] = []"
| "replace_first i b' (b # bs) = (if b_id b = i then b' # bs else b # replace_first i b' bs)"

fun delete_first :: "nat \<Rightarrow> bus list \<Rightarrow> bus list" where
  "delete_first i [] = []"
| "delete_first i (b # bs) = (if b_id b = i then bs else b # delete_first i bs)"

text \<open>
  \<^verbatim>\<open>app.put('/api/buses/:id')\<close> (server.js 130-145, part_001 262-272):
  \<^verbatim>\<open>Bus.findByIdAndUpdate(req.params.id, {...}, { new: true })\<close>, in server.js with
  \<^verbatim>\<open>runValidators: true\<close>. The id and the update document are cast before the database
  is asked; a failing cast rejects, which the handler answers with 500.
\<close>

definition update_bus ::
  "variant \<Rightarrow> ext \<Rightarrow> state \<Rightarrow> nat option \<Rightarrow> string \<Rightarrow> bus_body \<Rightarrow> response \<times> state" where
  "update_bus v x s cookie pid b =
     guarded v s cookie
       (case parse_object_id x pid of
          None \<Rightarrow> (reply v 500 UpdateError, s)
        | Some i \<Rightarrow>
            (case cast_update x (v = ServerJs) b of
               None \<Rightarrow> (reply v 500 UpdateError, s)
             | Some u \<Rightarrow>
                 (case find_by_id i (buses s) of
                    None \<Rightarrow> (reply v 404 BusNotFoundOnUpdate, s)
                  | Some old \<Rightarrow>
                      (Response 200 (BusInfo (text_of v BusUpdated) (apply_update u old)),
                       s\<lparr>buses := replace_first i (apply_update u old) (buses s)\<rparr>))))"

text \<open>
  \<^verbatim>\<open>app.delete('/api/buses/:id')\<close> (server.js 118-127, part_001 303-314):
  \<^verbatim>\<open>Bus.findByIdAndDelete(req.params.id)\<close>.
\<close>

definition delete_bus ::
  "variant \<Rightarrow> ext \<Rightarrow> state \<Rightarrow> nat option \<Rightarrow> string \<Rightarrow> response \<times> state" where
  "delete_bus v x s cookie pid =
     guarded v s cookie
       (case parse_object_id x pid of
          None \<Rightarrow> (reply v 500 DeleteError, s)
        | Some i \<Rightarrow>
            (case find_by_id i (buses s) of
               None \<Rightarrow> (reply v 404 BusNotFoundOnDelete, s)
             | Some bus \<Rightarrow>
                 (reply v 200 BusDeleted, s\<lparr>buses := delete_first i (buses s)\<rparr>)))"

text \<open>
  A stored field reflects a submitted value: where the value casts to the declared type,
  the field holds the result of the cast. Nothing is asked of a field whose submitted
  value is absent or null.
\<close>

definition reflects :: "'a cast \<Rightarrow> 'a option \<Rightarrow> bool" where
  "reflects c stored = (case c of Val a \<Rightarrow> stored = Some a | _ \<Rightarrow> True)"

definition reflects_body :: "ext \<Rightarrow> bus_body \<Rightarrow> bus \<Rightarrow> bool" where
  "reflects_body x b doc =
     (reflects (cast_string (busNumber b)) (b_busNumber doc) \<and>
      reflects (cast_number x (seats b)) (b_seats doc) \<and>
      reflects (cast_string (route b)) (b_route doc) \<and>
      reflects (cast_string (departurePoint b)) (b_departurePoint doc) \<and>
      reflects (cast_string (destinationPoint b)) (b_destinationPoint doc) \<and>
      reflects (cast_string (departureTime b)) (b_departureTime doc))"

subsection \<open>The router\<close>

datatype request =
    Register jsval jsval jsval
  | Login jsval jsval
  | Logout
  | ListBuses
  | CreateBus bus_body
  | UpdateBus string bus_body
  | DeleteBus string

fun handle :: "variant \<Rightarrow> ext \<Rightarrow> state \<Rightarrow> nat option \<times> request \<Rightarrow> response \<times> state" where
  "handle v x s (cookie, Register uname pw r) = register v x s cookie uname pw r"
| "handle v x s (cookie, Login uname pw) = login v x s cookie uname pw"
| "handle v x s (cookie, Logout) = logout v s cookie"
| "handle v x s (cookie, ListBuses) = list_buses v s"
| "handle v x s (cookie, CreateBus b) = create_bus v x s cookie b"
| "handle v x s (cookie, UpdateBus pid b) = update_bus v x s cookie pid b"
| "handle v x s (cookie, DeleteBus pid) = delete_bus v x s cookie pid"

text \<open>The requests that go through both guards.\<close>

fun admin_gated :: "request \<Rightarrow> bool" where
  "admin_gated (CreateBus b) = True"
| "admin_gated (UpdateBus pid b) = True"
| "admin_gated (DeleteBus pid) = True"
| "admin_gated _ = False"

text \<open>The state after a sequence of requests, handled one after the other.\<close>

fun run :: "variant \<Rightarrow> ext \<Rightarrow> state \<Rightarrow> (nat option \<times> request) list \<Rightarrow> state" where
  "run v x s [] = s"
| "run v x s (rq # rqs) = run v x (snd (handle v x s rq)) rqs"

text \<open>
  What the counters guarantee in every state the server reaches: bus ids are pairwise
  different and below the ObjectId counter, session ids are below the session counter.
\<close>

definition bus_ids_ok :: "state \<Rightarrow> bool" where
  "bus_ids_ok s =
     (distinct (map b_id (buses s)) \<and> list_all (\<lambda>b. b_id b < next_oid s) (buses s))"

definition session_ids_ok :: "state \<Rightarrow> bool" where
  "session_ids_ok s = list_all (\<lambda>p. fst p < next_sid s) (sessions s)"

definition wf_state :: "state \<Rightarrow> bool" where
  "wf_state s = (bus_ids_ok s \<and> session_ids_ok s)"

definition initial_state :: state where
  "initial_state = \<lparr>users = [], buses = [], sessions = [], next_oid = 0, next_sid = 0\<rparr>"

subsection \<open>A sample instance of the external primitives\<close>

text \<open>
  Used to evaluate the handlers on concrete requests. \<open>number_of_decimal\<close> agrees with
  \<^verbatim>\<open>Number\<close> on strings of decimal digits and on strings with no numeric reading
  (\<^verbatim>\<open>Number('abc')\<close> is NaN); it is not \<^verbatim>\<open>Number\<close> on signed, fractional or exponent
  literals, on which no evaluation below relies. \<open>object_id_of_hex\<close> reads the 24
  hexadecimal digits of an ObjectId. The hash is a stand-in: non-empty, and verified by
  comparison. A filter whose key is \<^verbatim>\<open>undefined\<close> matches no user.
\<close>

definition digit_of_char :: "nat \<Rightarrow> char \<Rightarrow> nat option" where
  "digit_of_char base c =
     (let n = (of_char c :: nat);
          d = (if 48 \<le> n \<and> n \<le> 57 then n - 48
               else if 97 \<le> n \<and> n \<le> 102 then n - 87
               else if 65 \<le> n \<and> n \<le> 70 then n - 55
               else 16)
      in if d < base then Some d else None)"

fun number_in_base :: "nat \<Rightarrow> nat \<Rightarrow> string \<Rightarrow> nat option" where
  "number_in_base base acc [] = Some acc"
| "number_in_base base acc (c # cs) =
     (case digit_of_char base c of
        None \<Rightarrow> None
      | Some d \<Rightarrow> number_in_base base (base * acc + d) cs)"

definition number_of_decimal :: "string \<Rightarrow> int option" where
  "number_of_decimal s = map_option int (number_in_base 10 0 s)"

definition object_id_of_hex :: "string \<Rightarrow> nat option" where
  "object_id_of_hex s = (if length s = 24 then number_in_base 16 0 s else None)"

definition sample_ext :: ext where
  "sample_ext =
     \<lparr>bcrypt_hash = (\<lambda>p. ''$2b$10$'' @ p),
      bcrypt_compare = (\<lambda>p h. h = ''$2b$10$'' @ p),
      js_to_number = number_of_decimal,
      parse_object_id = object_id_of_hex,
      omit_undefined = True,
      enum_accepts_null = True,
      undefined_matches_all = False\<rparr>"

subsection \<open>A sample state and a sample request body\<close>

text \<open>
  Two registered users (an administrator and a plain user), one bus, and three live
  sessions: the administrator's, the user's, and one that holds a user id and no role.
\<close>

definition sample_state :: state where
  "sample_state =
     \<lparr>users =
        [\<lparr>u_id = 2, username = ''root'', password = ''$2b$10$secret'', u_role = Some ''admin''\<rparr>,
         \<lparr>u_id = 3, username = ''ann'', password = ''$2b$10$pw'', u_role = Some ''user''\<rparr>],
      buses =
        [\<lparr>b_id = 4, b_busNumber = Some ''7'', b_seats = Some 20, b_route = Some ''R0'',
          b_departurePoint = Some ''C'', b_destinationPoint = Some ''D'',
          b_departureTime = Some ''09:30''\<rparr>],
      sessions =
        [(5, \<lparr>sess_userId = Some 2, sess_role = Some ''admin''\<rparr>),
         (6, \<lparr>sess_userId = Some 3, sess_role = Some ''user''\<rparr>),
         (7, \<lparr>sess_userId = Some 3, sess_role = None\<rparr>)],
      next_oid = 5, next_sid = 8\<rparr>"

text \<open>The body of the example in section 8 of the specification.\<close>

definition sample_body :: bus_body where
  "sample_body =
     \<lparr>busNumber = JStr ''12A'', seats = JNum 40, route = JStr ''R1'',
      departurePoint = JStr ''A'', destinationPoint = JStr ''B'',
      departureTime = JStr ''08:00''\<rparr>"

text \<open>An update request that supplies none of the six fields.\<close>

definition empty_body :: bus_body where
  "empty_body =
     \<lparr>busNumber = JUndefined, seats = JUndefined, route = JUndefined,
      departurePoint = JUndefined, destinationPoint = JUndefined,
      departureTime = JUndefined\<rparr>"

section \<open>Properties\<close>

subsection \<open>The guards\<close>

lemma status_reply [simp]: "status (reply v code m) = code"
  by (simp add: reply_def)

lemma guarded_unauthenticated:
  "sess_userId (load_session s cookie) = None \<Longrightarrow>
     guarded v s cookie h = (reply v 401 AuthRequired, s)"
  by (simp add: guarded_def authRequired_def)

lemma guarded_non_admin:
  "sess_userId (load_session s cookie) \<noteq> None \<Longrightarrow>
   sess_role (load_session s cookie) \<noteq> Some ''admin'' \<Longrightarrow>
     guarded v s cookie h = (reply v 403 AdminRequired, s)"
  by (cases v) (auto simp add: guarded_def authRequired_def adminRequired_def)

lemma guarded_admin:
  "sess_userId (load_session s cookie) \<noteq> None \<Longrightarrow>
   sess_role (load_session s cookie) = Some ''admin'' \<Longrightarrow>
     guarded v s cookie h = h"
  by (cases v) (auto simp add: guarded_def authRequired_def adminRequired_def)

lemma guarded_cases:
  "guarded v s cookie h = (reply v 401 AuthRequired, s) \<or>
   guarded v s cookie h = (reply v 403 AdminRequired, s) \<or>
   guarded v s cookie h = h"
  by (cases v) (simp_all add: guarded_def authRequired_def adminRequired_def)

lemma guarded_snd:
  assumes "P (snd h)" and "P s"
  shows "P (snd (guarded v s cookie h))"
  using guarded_cases [of v s cookie h] assms by auto

lemma guarded_passed:
  assumes "status (fst (guarded v s cookie h)) \<noteq> 401"
      and "status (fst (guarded v s cookie h)) \<noteq> 403"
  shows "guarded v s cookie h = h"
  using guarded_cases [of v s cookie h] assms by auto

lemma guards_passed:
  assumes "status (fst (guarded v s cookie h)) \<noteq> 401"
      and "status (fst (guarded v s cookie h)) \<noteq> 403"
  shows "authRequired v (load_session s cookie) = None \<and>
         adminRequired v (load_session s cookie) = None"
  using assms
  by (cases v) (auto simp add: guarded_def authRequired_def adminRequired_def split: if_splits)

lemma gated_unauthenticated:
  assumes "sess_userId (load_session s cookie) = None" and "admin_gated rq"
  shows "handle v x s (cookie, rq) = (reply v 401 AuthRequired, s)"
  using assms(2)
  by (cases rq)
     (simp_all add: create_bus_def update_bus_def delete_bus_def
        guarded_unauthenticated [OF assms(1)])

lemma sample_sessions:
  "load_session sample_state (Some 5) = \<lparr>sess_userId = Some 2, sess_role = Some ''admin''\<rparr>"
  "load_session sample_state (Some 6) = \<lparr>sess_userId = Some 3, sess_role = Some ''user''\<rparr>"
  "load_session sample_state (Some 7) = \<lparr>sess_userId = Some 3, sess_role = None\<rparr>"
  by (simp_all add: load_session_def sample_state_def)

lemma sample_admin:
  "sess_userId (load_session sample_state (Some 5)) \<noteq> None"
  "sess_role (load_session sample_state (Some 5)) = Some ''admin''"
  by (simp_all add: sample_sessions)

lemma sample_object_id:
  "parse_object_id sample_ext ''000000000000000000000004'' = Some 4"
  "parse_object_id sample_ext ''000000000000000000000009'' = Some 9"
  "parse_object_id sample_ext ''xyz'' = None"
  by (simp_all add: sample_ext_def object_id_of_hex_def digit_of_char_def)

lemma sample_not_a_number: "js_to_number sample_ext ''abc'' = None"
  by (simp add: sample_ext_def number_of_decimal_def digit_of_char_def)

text \<open>
  Claim C4. A create, update or delete request whose session holds a user id and whose
  session role is not \<^verbatim>\<open>'admin'\<close> (a role that was never set included) is answered with
  403 by \<^verbatim>\<open>adminRequired\<close>, in both files; it is never answered with 401, and the state
  is left as it was.
\<close>

theorem non_admin_session_forbidden:
  assumes "sess_userId (load_session s cookie) \<noteq> None"
      and "sess_role (load_session s cookie) \<noteq> Some ''admin''"
      and "admin_gated rq"
  shows "handle v x s (cookie, rq) = (reply v 403 AdminRequired, s) \<and>
         status (fst (handle v x s (cookie, rq))) = 403 \<and>
         status (fst (handle v x s (cookie, rq))) \<noteq> 401"
proof -
  have "handle v x s (cookie, rq) = (reply v 403 AdminRequired, s)"
    using assms(3)
    by (cases rq)
       (simp_all add: create_bus_def update_bus_def delete_bus_def guarded_non_admin [OF assms(1,2)])
  then show ?thesis by (simp add: reply_def)
qed

theorem non_admin_session_forbidden_witness:
  "sess_userId (load_session sample_state (Some 6)) \<noteq> None \<and>
   sess_role (load_session sample_state (Some 6)) \<noteq> Some ''admin'' \<and>
   admin_gated (CreateBus sample_body) \<and>
   handle Part001 sample_ext sample_state (Some 6, CreateBus sample_body) =
     (Response 403 (Message ''Admin access required''), sample_state) \<and>
   sess_userId (load_session sample_state (Some 7)) \<noteq> None \<and>
   sess_role (load_session sample_state (Some 7)) = None \<and>
   status (fst (handle ServerJs sample_ext sample_state
                  (Some 7, DeleteBus ''000000000000000000000004''))) = 403"
proof -
  have u: "sess_userId (load_session sample_state (Some 6)) \<noteq> None"
          "sess_role (load_session sample_state (Some 6)) \<noteq> Some ''admin''"
          "admin_gated (CreateBus sample_body)"
    by (simp_all add: sample_sessions)
  have n: "sess_userId (load_session sample_state (Some 7)) \<noteq> None"
          "sess_role (load_session sample_state (Some 7)) \<noteq> Some ''admin''"
          "admin_gated (DeleteBus ''000000000000000000000004'')"
    by (simp_all add: sample_sessions)
  have "sess_role (load_session sample_state (Some 7)) = None"
    by (simp add: sample_sessions)
  with u n non_admin_session_forbidden [OF u, of Part001 sample_ext]
       non_admin_session_forbidden [OF n, of ServerJs sample_ext]
  show ?thesis by (simp add: reply_def)
qed

subsection \<open>Login\<close>


text \<open>
  With a password that is absent or not a string, \<^verbatim>\<open>bcrypt.compare\<close> is reached only when
  the user exists, and rejects: the answer is 500 for a known name and 401 for an unknown
  one.
\<close>

lemma login_non_string_password:
  assumes "\<forall>p. pw \<noteq> JStr p"
  shows "login v x s cookie uname pw =
           (if findOne_user x (users s) uname = None then (reply v 401 InvalidCredentials, s)
            else (reply v 500 LoginError, s))"
  using assms by (cases pw) (auto simp add: login_def split: option.split)




subsection \<open>Sessions and logout\<close>

lemma save_session_users [simp]: "users (save_session s cookie d) = users s"
  by (simp add: save_session_def split: option.split)

lemma save_session_buses [simp]: "buses (save_session s cookie d) = buses s"
  by (simp add: save_session_def split: option.split)

lemma save_session_next_oid [simp]: "next_oid (save_session s cookie d) = next_oid s"
  by (simp add: save_session_def split: option.split)

lemma live_sid_Some: "live_sid s cookie = Some k \<Longrightarrow> map_of (sessions s) k \<noteq> None"
  by (auto simp add: live_sid_def split: option.splits)

text \<open>
  A session id that has been issued and is no longer in the store stays out of the store:
  a session is written under the id it was loaded from, or under a new id.
\<close>

lemma save_session_retired:
  assumes "map_of (sessions s) sid = None" and "sid < next_sid s"
  shows "map_of (sessions (save_session s cookie d)) sid = None \<and>
         sid < next_sid (save_session s cookie d)"
proof (cases "live_sid s cookie")
  case None
  with assms show ?thesis by (simp add: save_session_def update_conv')
next
  case (Some k)
  with assms live_sid_Some [OF Some] have "k \<noteq> sid" by auto
  with assms Some show ?thesis by (simp add: save_session_def update_conv')
qed

lemma create_bus_sessions:
  "sessions (snd (create_bus v x s cookie b)) = sessions s \<and>
   next_sid (snd (create_bus v x s cookie b)) = next_sid s"
  unfolding create_bus_def
  by (rule guarded_snd [where P = "\<lambda>t. sessions t = sessions s \<and> next_sid t = next_sid s"])
     (simp_all split: option.split)

lemma update_bus_sessions:
  "sessions (snd (update_bus v x s cookie pid b)) = sessions s \<and>
   next_sid (snd (update_bus v x s cookie pid b)) = next_sid s"
  unfolding update_bus_def
  by (rule guarded_snd [where P = "\<lambda>t. sessions t = sessions s \<and> next_sid t = next_sid s"])
     (simp_all split: option.split)

lemma delete_bus_sessions:
  "sessions (snd (delete_bus v x s cookie pid)) = sessions s \<and>
   next_sid (snd (delete_bus v x s cookie pid)) = next_sid s"
  unfolding delete_bus_def
  by (rule guarded_snd [where P = "\<lambda>t. sessions t = sessions s \<and> next_sid t = next_sid s"])
     (simp_all split: option.split)

lemma register_state:
  "snd (register v x s cookie uname pw r) = s \<or>
   (\<exists>u d. snd (register v x s cookie uname pw r) =
      save_session (s\<lparr>users := users s @ [u], next_oid := Suc (next_oid s)\<rparr>) cookie d)"
  by (auto simp add: register_def split: option.split jsval.split)

lemma login_state:
  "snd (login v x s cookie uname pw) = s \<or>
   (\<exists>d. snd (login v x s cookie uname pw) = save_session s cookie d)"
  by (auto simp add: login_def split: option.split jsval.split)

lemma handle_retired:
  assumes "map_of (sessions s) sid = None" and "sid < next_sid s"
  shows "map_of (sessions (snd (handle v x s rq))) sid = None \<and>
         sid < next_sid (snd (handle v x s rq))"
proof (cases rq)
  case (Pair cookie r)
  show ?thesis
  proof (cases r)
    case (Register uname pw role)
    have "map_of (sessions (s\<lparr>users := us, next_oid := k\<rparr>)) sid = None"
         "sid < next_sid (s\<lparr>users := us, next_oid := k\<rparr>)" for us k
      using assms by simp_all
    from save_session_retired [OF this] register_state [of v x s cookie uname pw role] assms
    show ?thesis unfolding Pair Register by auto
  next
    case (Login uname pw)
    from save_session_retired [OF assms] login_state [of v x s cookie uname pw] assms
    show ?thesis unfolding Pair Login by auto
  next
    case Logout
    with Pair assms show ?thesis
      by (cases v) (simp_all add: logout_def session_destroy_def delete_conv' split: option.split)
  next
    case ListBuses
    with Pair assms show ?thesis by (simp add: list_buses_def)
  next
    case (CreateBus b)
    with Pair assms show ?thesis by (simp add: create_bus_sessions)
  next
    case (UpdateBus pid b)
    with Pair assms show ?thesis by (simp add: update_bus_sessions)
  next
    case (DeleteBus pid)
    with Pair assms show ?thesis by (simp add: delete_bus_sessions)
  qed
qed

lemma run_retired:
  "map_of (sessions s) sid = None \<Longrightarrow> sid < next_sid s \<Longrightarrow>
     map_of (sessions (run v x s rqs)) sid = None \<and> sid < next_sid (run v x s rqs)"
proof (induction rqs arbitrary: s)
  case Nil
  then show ?case by simp
next
  case (Cons rq rqs)
  from handle_retired [OF Cons.prems, of v x rq] Cons.IH show ?case by simp
qed

lemma wf_session_below:
  "session_ids_ok s \<Longrightarrow> map_of (sessions s) sid = Some d \<Longrightarrow> sid < next_sid s"
proof -
  assume "session_ids_ok s" and "map_of (sessions s) sid = Some d"
  then have "(sid, d) \<in> set (sessions s)" and "\<forall>p \<in> set (sessions s). fst p < next_sid s"
    by (auto simp add: session_ids_ok_def list_all_iff dest: map_of_SomeD)
  then show ?thesis by fastforce
qed

text \<open>
  Claim C5. part_001 only has a logout route. After a logout that is answered with 200
  the session is gone from the store, and a create, update or delete request that carries
  the cookie of that session is answered with 401, whatever role the session had and
  whatever requests (of this or of other clients) the server has handled in between.
\<close>

theorem logout_then_unauthenticated:
  assumes "session_ids_ok s"
      and "map_of (sessions s) sid = Some d"
      and "status (fst (logout v s (Some sid))) = 200"
      and "admin_gated rq"
  shows "map_of (sessions (snd (logout v s (Some sid)))) sid = None \<and>
         handle v x (run v x (snd (logout v s (Some sid))) rqs) (Some sid, rq) =
           (reply v 401 AuthRequired, run v x (snd (logout v s (Some sid))) rqs) \<and>
         status (fst (handle v x (run v x (snd (logout v s (Some sid))) rqs) (Some sid, rq))) = 401"
proof -
  let ?s1 = "snd (logout v s (Some sid))"
  from assms(3) have v: "v = Part001" by (cases v) (simp_all add: logout_def)
  have gone: "map_of (sessions ?s1) sid = None"
    by (simp add: v logout_def session_destroy_def delete_conv')
  have below: "sid < next_sid ?s1"
    using wf_session_below [OF assms(1,2)] by (simp add: v logout_def session_destroy_def)
  from run_retired [OF gone below, of v x rqs]
  have "sess_userId (load_session (run v x ?s1 rqs) (Some sid)) = None"
    by (simp add: load_session_def empty_session_def)
  from gated_unauthenticated [OF this assms(4)] gone show ?thesis by simp
qed

theorem logout_then_unauthenticated_witness:
  "session_ids_ok sample_state \<and>
   map_of (sessions sample_state) 5 = Some \<lparr>sess_userId = Some 2, sess_role = Some ''admin''\<rparr> \<and>
   status (fst (logout Part001 sample_state (Some 5))) = 200 \<and>
   admin_gated (CreateBus sample_body) \<and>
   status (fst (handle Part001 sample_ext
     (run Part001 sample_ext (snd (logout Part001 sample_state (Some 5)))
        [(Some 5, Login (JStr ''root'') (JStr ''secret'')), (None, ListBuses)])
     (Some 5, CreateBus sample_body))) = 401"
proof -
  have h: "session_ids_ok sample_state"
          "map_of (sessions sample_state) 5 = Some \<lparr>sess_userId = Some 2, sess_role = Some ''admin''\<rparr>"
          "status (fst (logout Part001 sample_state (Some 5))) = 200"
          "admin_gated (CreateBus sample_body)"
    by (simp_all add: session_ids_ok_def sample_state_def logout_def session_destroy_def)
  from h logout_then_unauthenticated [OF h, of sample_ext
         "[(Some 5, Login (JStr ''root'') (JStr ''secret'')), (None, ListBuses)]"]
  show ?thesis by simp
qed

subsection \<open>Registration\<close>

lemma findOne_user_Val:
  "cast_string uname = Val n \<Longrightarrow> findOne_user x us uname = find (\<lambda>u. username u = n) us"
  by (simp add: findOne_user_def)

lemma session_overwrite:
  "d\<lparr>sess_userId := a, sess_role := b\<rparr> = \<lparr>sess_userId = a, sess_role = b\<rparr>"
  by (cases d) simp

lemma required_string_Some: "required_string c = Some n \<Longrightarrow> c = Val n \<and> n \<noteq> []"
  by (cases c) (auto split: if_splits)

text \<open>
  What a successful registration does, for a name that casts to a non-empty string no
  user has, a string password, and a role the schema accepts.
\<close>

lemma register_created:
  assumes "cast_string uname = Val n" and "n \<noteq> []"
      and "find (\<lambda>u. username u = n) (users s) = None"
      and "bcrypt_hash x p \<noteq> []"
      and "role_path x (case v of ServerJs \<Rightarrow> js_or r (JStr ''user'') | Part001 \<Rightarrow> r) = Some t"
  shows "register v x s cookie uname (JStr p) r =
           (Response 201 (UserInfo (text_of v Registered) t (next_oid s)),
            save_session
              (s\<lparr>users := users s @
                    [\<lparr>u_id = next_oid s, username = n, password = bcrypt_hash x p, u_role = t\<rparr>],
                 next_oid := Suc (next_oid s)\<rparr>) cookie
              \<lparr>sess_userId = Some (next_oid s), sess_role = t\<rparr>)"
  using assms by (simp add: register_def findOne_user_Val new_user_def session_overwrite)

lemma register_201:
  assumes "status (fst (register v x s cookie uname pw r)) = 201"
  shows "\<exists>u d. cast_string uname = Val (username u) \<and>
           snd (register v x s cookie uname pw r) =
             save_session (s\<lparr>users := users s @ [u], next_oid := Suc (next_oid s)\<rparr>) cookie d"
proof -
  from assms have none: "findOne_user x (users s) uname = None"
    by (cases "findOne_user x (users s) uname") (simp_all add: register_def)
  from assms none obtain p where p: "pw = JStr p"
    by (cases pw) (simp_all add: register_def)
  let ?r = "case v of ServerJs \<Rightarrow> js_or r (JStr ''user'') | Part001 \<Rightarrow> r"
  from assms none p obtain u where u: "new_user x s uname (bcrypt_hash x p) ?r = Some u"
    by (cases "new_user x s uname (bcrypt_hash x p) ?r") (simp_all add: register_def)
  then have "cast_string uname = Val (username u)"
    by (auto simp add: new_user_def split: option.splits if_splits dest: required_string_Some)
  with none p u show ?thesis by (auto simp add: register_def)
qed

lemma find_append_Some:
  "find P xs \<noteq> None \<Longrightarrow> find P (xs @ ys) \<noteq> None"
  by (induction xs) auto

lemma find_append_last:
  "P y \<Longrightarrow> find P (xs @ [y]) \<noteq> None"
  by (induction xs) auto

lemma findOne_user_append:
  "findOne_user x us q \<noteq> None \<Longrightarrow> findOne_user x (us @ added) q \<noteq> None"
  by (cases "cast_string q")
     (auto simp add: findOne_user_def find_append_Some split: list.splits if_splits)

lemma guarded_users:
  assumes "users (snd h) = users s"
  shows "users (snd (guarded v s cookie h)) = users s"
  using guarded_snd [where P = "\<lambda>t. users t = users s", OF assms] by simp

text \<open>
  No handler removes a user: the user collection only grows at its end.
\<close>

lemma handle_users:
  "\<exists>added. users (snd (handle v x s rq)) = users s @ added"
proof (cases rq)
  case (Pair cookie r)
  show ?thesis
  proof (cases r)
    case (Register uname pw role)
    from register_state [of v x s cookie uname pw role]
    show ?thesis unfolding Pair Register by auto
  next
    case (Login uname pw)
    from login_state [of v x s cookie uname pw]
    show ?thesis unfolding Pair Login by auto
  next
    case Logout
    with Pair show ?thesis
      by (cases v) (simp_all add: logout_def session_destroy_def split: option.split)
  next
    case ListBuses
    with Pair show ?thesis by (simp add: list_buses_def)
  next
    case (CreateBus b)
    have "users (snd (create_bus v x s cookie b)) = users s"
      unfolding create_bus_def by (rule guarded_users) (simp split: option.split)
    with Pair CreateBus show ?thesis by simp
  next
    case (UpdateBus pid b)
    have "users (snd (update_bus v x s cookie pid b)) = users s"
      unfolding update_bus_def by (rule guarded_users) (simp split: option.split)
    with Pair UpdateBus show ?thesis by simp
  next
    case (DeleteBus pid)
    have "users (snd (delete_bus v x s cookie pid)) = users s"
      unfolding delete_bus_def by (rule guarded_users) (simp split: option.split)
    with Pair DeleteBus show ?thesis by simp
  qed
qed

lemma run_keeps_user:
  "findOne_user x (users s) q \<noteq> None \<Longrightarrow> findOne_user x (users (run v x s rqs)) q \<noteq> None"
proof (induction rqs arbitrary: s)
  case Nil
  then show ?case by simp
next
  case (Cons rq rqs)
  from handle_users [of v x s rq] obtain added
    where "users (snd (handle v x s rq)) = users s @ added" by blast
  with Cons.prems have "findOne_user x (users (snd (handle v x s rq))) q \<noteq> None"
    by (simp add: findOne_user_append)
  from Cons.IH [OF this] show ?case by simp
qed

text \<open>
  Claim C2, as stated, fails: a registration whose role is a string outside the enum
  does not succeed. \<^verbatim>\<open>save()\<close> rejects the document, both files answer 500, and no
  user is stored.
\<close>

theorem register_invalid_role_counterexample:
  "register ServerJs sample_ext sample_state None (JStr ''bob'') (JStr ''pw'') (JStr ''superuser'') =
     (Response 500 (Message ''Viga registreerimisel''), sample_state) \<and>
   register Part001 sample_ext sample_state None (JStr ''bob'') (JStr ''pw'') (JStr ''superuser'') =
     (Response 500 (Message ''Error registering user''), sample_state)"
  by (simp add: register_def findOne_user_def sample_state_def new_user_def role_path_def
        js_or_def reply_def)

text \<open>
  Claim C2, amended. The stored role is \<^verbatim>\<open>'user'\<close> when the request has no role (in
  server.js also when the role is falsy, because of \<^verbatim>\<open>role || 'user'\<close>). When the role
  is a non-empty string other than \<^verbatim>\<open>'user'\<close> and \<^verbatim>\<open>'admin'\<close> the registration is answered
  with 500, stores no user and establishes no session.
\<close>

theorem register_role_default:
  assumes "cast_string uname = Val n" and "n \<noteq> []"
      and "find (\<lambda>u. username u = n) (users s) = None"
      and "bcrypt_hash x p \<noteq> []"
  shows "(r = JUndefined \<or> (v = ServerJs \<and> \<not> truthy r) \<longrightarrow>
            fst (register v x s cookie uname (JStr p) r) =
              Response 201 (UserInfo (text_of v Registered) (Some ''user'') (next_oid s)) \<and>
            users (snd (register v x s cookie uname (JStr p) r)) =
              users s @ [\<lparr>u_id = next_oid s, username = n, password = bcrypt_hash x p,
                          u_role = Some ''user''\<rparr>]) \<and>
         (t \<noteq> [] \<and> t \<noteq> ''user'' \<and> t \<noteq> ''admin'' \<longrightarrow>
            register v x s cookie uname (JStr p) (JStr t) = (reply v 500 RegisterError, s))"
proof (intro conjI impI)
  assume "t \<noteq> [] \<and> t \<noteq> ''user'' \<and> t \<noteq> ''admin''"
  then show "register v x s cookie uname (JStr p) (JStr t) = (reply v 500 RegisterError, s)"
    using assms
    by (cases v) (simp_all add: register_def findOne_user_Val new_user_def role_path_def js_or_def)
next
  assume a: "r = JUndefined \<or> (v = ServerJs \<and> \<not> truthy r)"
  then have role: "role_path x (case v of ServerJs \<Rightarrow> js_or r (JStr ''user'') | Part001 \<Rightarrow> r) =
      Some (Some ''user'')"
    by (cases v) (auto simp add: role_path_def js_or_def)
  show "fst (register v x s cookie uname (JStr p) r) =
      Response 201 (UserInfo (text_of v Registered) (Some ''user'') (next_oid s))"
    using assms role by (simp add: register_def findOne_user_Val new_user_def)
  show "users (snd (register v x s cookie uname (JStr p) r)) =
      users s @ [\<lparr>u_id = next_oid s, username = n, password = bcrypt_hash x p,
                  u_role = Some ''user''\<rparr>]"
    using assms role by (simp add: register_def findOne_user_Val new_user_def)
qed

theorem register_role_default_witness:
  "cast_string (JStr ''bob'') = Val ''bob'' \<and> ''bob'' \<noteq> [] \<and>
   find (\<lambda>u. username u = ''bob'') (users sample_state) = None \<and>
   bcrypt_hash sample_ext ''pw'' \<noteq> [] \<and>
   fst (register Part001 sample_ext sample_state None (JStr ''bob'') (JStr ''pw'') JUndefined) =
     Response 201 (UserInfo ''User registered successfully'' (Some ''user'') 5) \<and>
   users (snd (register Part001 sample_ext sample_state None (JStr ''bob'') (JStr ''pw'') JUndefined)) =
     users sample_state @
       [\<lparr>u_id = 5, username = ''bob'', password = ''$2b$10$pw'', u_role = Some ''user''\<rparr>] \<and>
   register Part001 sample_ext sample_state None (JStr ''bob'') (JStr ''pw'') (JStr ''driver'') =
     (Response 500 (Message ''Error registering user''), sample_state)"
proof -
  have h: "cast_string (JStr ''bob'') = Val ''bob''" "''bob'' \<noteq> []"
          "find (\<lambda>u. username u = ''bob'') (users sample_state) = None"
          "bcrypt_hash sample_ext ''pw'' \<noteq> []"
    by (simp_all add: sample_state_def sample_ext_def)
  have n: "next_oid sample_state = 5" "bcrypt_hash sample_ext ''pw'' = ''$2b$10$pw''"
    by (simp_all add: sample_state_def sample_ext_def)
  from h n register_role_default
              [OF h, where r = JUndefined and v = Part001 and t = "''driver''" and cookie = None]
  show ?thesis by (simp add: reply_def)
qed

text \<open>
  Claim C7, as stated, fails: the first of two registrations of a name need not be the
  one that succeeds. A first attempt with the role \<^verbatim>\<open>superuser\<close> is answered with 500
  and stores nothing, so the name stays free, and a second attempt with the same name and
  no role is answered with 201, not 400. This is so in both files.
\<close>

theorem register_after_failed_attempt_counterexample:
  "fst (register Part001 sample_ext sample_state None
          (JStr ''bob'') (JStr ''pw'') (JStr ''superuser'')) =
     Response 500 (Message ''Error registering user'') \<and>
   fst (register Part001 sample_ext
          (snd (register Part001 sample_ext sample_state None
                  (JStr ''bob'') (JStr ''pw'') (JStr ''superuser'')))
          None (JStr ''bob'') (JStr ''pw'') JUndefined) =
     Response 201 (UserInfo ''User registered successfully'' (Some ''user'') 5) \<and>
   status (fst (register ServerJs sample_ext sample_state None
                  (JStr ''bob'') (JStr ''pw'') (JStr ''superuser''))) = 500 \<and>
   status (fst (register ServerJs sample_ext
          (snd (register ServerJs sample_ext sample_state None
                  (JStr ''bob'') (JStr ''pw'') (JStr ''superuser'')))
          None (JStr ''bob'') (JStr ''pw'') JUndefined)) = 201"
proof -
  have first: "register v sample_ext sample_state None
      (JStr ''bob'') (JStr ''pw'') (JStr ''superuser'') = (reply v 500 RegisterError, sample_state)"
    for v
    by (cases v)
       (simp_all add: register_def findOne_user_def sample_state_def new_user_def role_path_def
          js_or_def)
  have role: "role_path sample_ext
      (case v of ServerJs \<Rightarrow> js_or JUndefined (JStr ''user'') | Part001 \<Rightarrow> JUndefined) =
      Some (Some ''user'')" for v
    by (cases v) (simp_all add: role_path_def js_or_def)
  have second: "fst (register v sample_ext sample_state None
      (JStr ''bob'') (JStr ''pw'') JUndefined) =
      Response 201 (UserInfo (text_of v Registered) (Some ''user'') 5)" for v
    using register_created
            [where uname = "JStr ''bob''" and n = "''bob''" and s = sample_state
               and x = sample_ext and p = "''pw''" and v = v and r = JUndefined
               and t = "Some ''user''" and cookie = None, OF _ _ _ _ role]
    by (simp add: sample_state_def sample_ext_def)
  from first second show ?thesis by (simp add: reply_def)
qed

text \<open>
  Claim C7, amended. A registration with an unused non-empty name, a string password and a
  role that is absent, \<^verbatim>\<open>'user'\<close> or \<^verbatim>\<open>'admin'\<close> is answered with 201. After a registration
  that was answered with 201, a registration with the same name is answered with 400 and
  the duplicate-user message, and leaves the state as it was (no user stored, no session
  established), whatever requests the server has handled in between and whatever
  password and role the second attempt carries.
\<close>

theorem register_same_username_twice:
  "(cast_string uname = Val n \<and> n \<noteq> [] \<and> find (\<lambda>u. username u = n) (users s) = None \<and>
    bcrypt_hash x p \<noteq> [] \<and> (r = JUndefined \<or> r = JStr ''user'' \<or> r = JStr ''admin'') \<longrightarrow>
      status (fst (register v x s c1 uname (JStr p) r)) = 201) \<and>
   (status (fst (register v x s c1 uname pw1 r1)) = 201 \<longrightarrow>
      register v x (run v x (snd (register v x s c1 uname pw1 r1)) rqs) c2 uname pw2 r2 =
        (reply v 400 UserExists, run v x (snd (register v x s c1 uname pw1 r1)) rqs))"
proof (intro conjI impI)
  assume a: "cast_string uname = Val n \<and> n \<noteq> [] \<and>
    find (\<lambda>u. username u = n) (users s) = None \<and> bcrypt_hash x p \<noteq> [] \<and>
    (r = JUndefined \<or> r = JStr ''user'' \<or> r = JStr ''admin'')"
  then obtain t
    where "role_path x (case v of ServerJs \<Rightarrow> js_or r (JStr ''user'') | Part001 \<Rightarrow> r) = Some t"
    by (cases v) (auto simp add: role_path_def js_or_def)
  with a register_created [where uname = uname and n = n and s = s and x = x and p = p and v = v
                        and r = r and t = t and cookie = c1]
  show "status (fst (register v x s c1 uname (JStr p) r)) = 201" by simp
next
  assume "status (fst (register v x s c1 uname pw1 r1)) = 201"
  from register_201 [OF this] obtain u d
    where u: "cast_string uname = Val (username u)"
      and s1: "snd (register v x s c1 uname pw1 r1) =
         save_session (s\<lparr>users := users s @ [u], next_oid := Suc (next_oid s)\<rparr>) c1 d"
    by blast
  have "findOne_user x (users (snd (register v x s c1 uname pw1 r1))) uname \<noteq> None"
    by (simp add: s1 findOne_user_Val [OF u] find_append_last)
  from run_keeps_user [OF this, of v rqs]
  show "register v x (run v x (snd (register v x s c1 uname pw1 r1)) rqs) c2 uname pw2 r2 =
        (reply v 400 UserExists, run v x (snd (register v x s c1 uname pw1 r1)) rqs)"
    by (auto simp add: register_def)
qed

theorem register_same_username_twice_witness:
  "cast_string (JStr ''bob'') = Val ''bob'' \<and> ''bob'' \<noteq> [] \<and>
   find (\<lambda>u. username u = ''bob'') (users sample_state) = None \<and>
   bcrypt_hash sample_ext ''pw'' \<noteq> [] \<and>
   status (fst (register Part001 sample_ext sample_state None (JStr ''bob'') (JStr ''pw'') JUndefined)) = 201 \<and>
   fst (register Part001 sample_ext
     (run Part001 sample_ext
        (snd (register Part001 sample_ext sample_state None (JStr ''bob'') (JStr ''pw'') JUndefined))
        [(None, ListBuses)])
     None (JStr ''bob'') (JStr ''other'') (JStr ''admin'')) =
     Response 400 (Message ''User already exists'')"
proof -
  have h: "cast_string (JStr ''bob'') = Val ''bob'' \<and> ''bob'' \<noteq> [] \<and>
      find (\<lambda>u. username u = ''bob'') (users sample_state) = None \<and>
      bcrypt_hash sample_ext ''pw'' \<noteq> []"
    by (simp add: sample_state_def sample_ext_def)
  from register_same_username_twice
         [where uname = "JStr ''bob''" and n = "''bob''" and s = sample_state and x = sample_ext
            and p = "''pw''" and v = Part001 and ?c1.0 = None and ?pw1.0 = "JStr ''pw''"
            and r = JUndefined and ?r1.0 = JUndefined and rqs = "[(None, ListBuses)]"
            and ?c2.0 = None
            and ?pw2.0 = "JStr ''other''" and ?r2.0 = "JStr ''admin''"] h
  show ?thesis by (simp add: reply_def)
qed

subsection \<open>Creating a bus\<close>

text \<open>
  Claim C9. In server.js the presence check of the create handler is a truthiness test:
  from an administrator's session the answer is 400 exactly when some field is falsy, and
  then nothing is stored. A body whose \<^verbatim>\<open>seats\<close> is the number 0 is rejected in this
  way, whatever its other fields.
\<close>

theorem create_serverjs_truthiness:
  assumes "sess_userId (load_session s cookie) \<noteq> None"
      and "sess_role (load_session s cookie) = Some ''admin''"
  shows "(status (fst (create_bus ServerJs x s cookie b)) = 400) = some_field_falsy b \<and>
         (some_field_falsy b \<longrightarrow>
            create_bus ServerJs x s cookie b = (reply ServerJs 400 FillAllFields, s)) \<and>
         create_bus ServerJs x s cookie (b\<lparr>seats := JNum 0\<rparr>) =
           (reply ServerJs 400 FillAllFields, s)"
  by (simp add: create_bus_def guarded_admin [OF assms] some_field_falsy_def
        split: option.split)

theorem create_serverjs_truthiness_witness:
  "sess_userId (load_session sample_state (Some 5)) \<noteq> None \<and>
   sess_role (load_session sample_state (Some 5)) = Some ''admin'' \<and>
   \<not> some_field_falsy sample_body \<and>
   status (fst (create_bus ServerJs sample_ext sample_state (Some 5) sample_body)) \<noteq> 400 \<and>
   create_bus ServerJs sample_ext sample_state (Some 5) (sample_body\<lparr>seats := JNum 0\<rparr>) =
     (reply ServerJs 400 FillAllFields, sample_state)"
  using create_serverjs_truthiness [of sample_state "Some 5" sample_ext sample_body]
  by (simp add: sample_sessions some_field_falsy_def sample_body_def)

text \<open>
  In server.js a field that is absent, null or the empty string makes the create handler
  answer 400 and store nothing.
\<close>

lemma create_serverjs_missing_field:
  assumes "sess_userId (load_session s cookie) \<noteq> None"
      and "sess_role (load_session s cookie) = Some ''admin''"
      and "f \<in> {busNumber b, seats b, route b, departurePoint b, destinationPoint b,
                 departureTime b}"
      and "f = JUndefined \<or> f = JNull \<or> f = JStr []"
  shows "create_bus ServerJs x s cookie b = (reply ServerJs 400 FillAllFields, s)"
proof -
  from assms(4) have "\<not> truthy f" by auto
  with assms(3) have "some_field_falsy b"
    by (auto simp add: some_field_falsy_def)
  then show ?thesis
    by (simp add: create_bus_def guarded_admin [OF assms(1,2)])
qed

text \<open>The create handler of part_001 has four answers, and 400 is not among them.\<close>

lemma create_part001_status:
  "status (fst (create_bus Part001 x s cookie b)) \<in> {401, 403, 500, 201}"
  by (simp add: create_bus_def guarded_def authRequired_def adminRequired_def
        split: option.split)

text \<open>
  Claim C1. The claim asks for 400 when a field is missing. part_001 has no presence
  check: the administrator's request of the specification's example with \<^verbatim>\<open>seats\<close> left
  out reaches \<^verbatim>\<open>save()\<close>, which rejects, and the handler answers 500; the bus collection
  is unchanged. No request at all is answered with 400 by this handler, which its own
  Swagger annotation documents for invalid input and which server.js does answer.
\<close>

theorem create_part001_missing_field:
  "create_bus Part001 sample_ext sample_state (Some 5) (sample_body\<lparr>seats := JUndefined\<rparr>) =
     (Response 500 (Message ''Error adding bus''), sample_state) \<and>
   status (fst (create_bus Part001 x s cookie b)) \<noteq> 400"
proof -
  have "status (fst (create_bus Part001 x s cookie b)) \<noteq> 400"
    using create_part001_status [of x s cookie b] by auto
  moreover have "create_bus Part001 sample_ext sample_state (Some 5)
      (sample_body\<lparr>seats := JUndefined\<rparr>) =
     (Response 500 (Message ''Error adding bus''), sample_state)"
    by (simp add: create_bus_def guarded_admin sample_sessions new_bus_def sample_body_def
          reply_def)
  ultimately show ?thesis by simp
qed

subsection \<open>Updating a bus\<close>

lemma find_by_id_Some:
  "find_by_id i bs = Some b \<Longrightarrow> b_id b = i \<and> b \<in> set bs"
  by (auto simp add: find_by_id_def find_Some_iff)

lemma find_by_id_None:
  "(find_by_id i bs = None) = (i \<notin> b_id ` set bs)"
  by (auto simp add: find_by_id_def find_None_iff)

lemma find_by_id_replace_first:
  "find_by_id i bs \<noteq> None \<Longrightarrow> b_id nb = i \<Longrightarrow> find_by_id i (replace_first i nb bs) = Some nb"
  by (induction bs) (auto simp add: find_by_id_def)

lemma update_path_Val:
  "update_path x validators e (Val a) = Some c \<Longrightarrow> c = SetTo (Some a)"
  by (simp add: update_path_def split: if_splits)

lemma update_path_reflects:
  "update_path x validators e c = Some ch \<Longrightarrow> reflects c (apply_change ch old)"
  by (cases c) (auto simp add: update_path_def reflects_def split: if_splits)

lemma cast_update_reflects:
  assumes "cast_update x validators b = Some u"
  shows "reflects_body x b (apply_update u old)"
  using assms
  by (auto simp add: cast_update_def reflects_body_def apply_update_def update_path_reflects
        split: option.splits)

text \<open>
  Claim C3, as stated, fails twice. A bus with the id exists and \<^verbatim>\<open>seats\<close> is the string
  \<^verbatim>\<open>'abc'\<close>: the answer is 500, not 200, in both files. The id is \<^verbatim>\<open>'xyz'\<close>, which
  is no ObjectId, so no bus has it: the answer is 500, not 404.
\<close>

theorem update_bus_counterexample:
  "find_by_id 4 (buses sample_state) \<noteq> None \<and>
   parse_object_id sample_ext ''000000000000000000000004'' = Some 4 \<and>
   update_bus ServerJs sample_ext sample_state (Some 5) ''000000000000000000000004''
       (sample_body\<lparr>seats := JStr ''abc''\<rparr>) =
     (Response 500 (Message ''Serveri viga bussi muutmisel''), sample_state) \<and>
   update_bus Part001 sample_ext sample_state (Some 5) ''000000000000000000000004''
       (sample_body\<lparr>seats := JStr ''abc''\<rparr>) =
     (Response 500 (Message ''Error updating bus''), sample_state) \<and>
   update_bus Part001 sample_ext sample_state (Some 5) ''xyz'' sample_body =
     (Response 500 (Message ''Error updating bus''), sample_state)"
proof -
  have "find_by_id 4 (buses sample_state) \<noteq> None"
    by (simp add: find_by_id_def sample_state_def)
  moreover have "cast_update sample_ext validators (sample_body\<lparr>seats := JStr ''abc''\<rparr>) = None"
    for validators
    by (simp add: cast_update_def update_path_def sample_body_def sample_not_a_number)
  ultimately show ?thesis
    by (simp add: update_bus_def guarded_admin [OF sample_admin] sample_object_id reply_def)
qed

text \<open>
  Claim C3, amended. For an update from an administrator's session:
  \<^item> an id that is no ObjectId, or a \<^verbatim>\<open>seats\<close> that is a non-empty string and not a
    number, is answered with 500 and nothing is persisted;
  \<^item> with an id that is an ObjectId and six supplied values that cast to their declared
    types (the strings non-empty), the answer is 404 when no bus has the id, and
    otherwise 200 with the record whose six fields are the cast values, which replaces
    the stored record;
  \<^item> whenever the answer is 200, the record in the answer has the requested id, is the
    record now stored under that id, and holds the cast value of every supplied value.
\<close>

theorem update_bus_checked:
  assumes "sess_userId (load_session s cookie) \<noteq> None"
      and "sess_role (load_session s cookie) = Some ''admin''"
  shows "(parse_object_id x pid = None \<longrightarrow>
            update_bus v x s cookie pid b = (reply v 500 UpdateError, s)) \<and>
         (seats b = JStr t \<and> t \<noteq> [] \<and> js_to_number x t = None \<longrightarrow>
            update_bus v x s cookie pid b = (reply v 500 UpdateError, s)) \<and>
         (parse_object_id x pid = Some i \<and>
          cast_string (busNumber b) = Val bn \<and> bn \<noteq> [] \<and>
          cast_number x (seats b) = Val n \<and>
          cast_string (route b) = Val r \<and> r \<noteq> [] \<and>
          cast_string (departurePoint b) = Val dp \<and> dp \<noteq> [] \<and>
          cast_string (destinationPoint b) = Val ds \<and> ds \<noteq> [] \<and>
          cast_string (departureTime b) = Val dt \<and> dt \<noteq> [] \<and>
          nb = \<lparr>b_id = i, b_busNumber = Some bn, b_seats = Some n, b_route = Some r,
                b_departurePoint = Some dp, b_destinationPoint = Some ds,
                b_departureTime = Some dt\<rparr> \<longrightarrow>
            (find_by_id i (buses s) = None \<longrightarrow>
               update_bus v x s cookie pid b = (reply v 404 BusNotFoundOnUpdate, s)) \<and>
            (find_by_id i (buses s) \<noteq> None \<longrightarrow>
               update_bus v x s cookie pid b =
                 (Response 200 (BusInfo (text_of v BusUpdated) nb),
                  s\<lparr>buses := replace_first i nb (buses s)\<rparr>) \<and>
               find_by_id i (replace_first i nb (buses s)) = Some nb)) \<and>
         (status (fst (update_bus v x s cookie pid b)) = 200 \<longrightarrow>
            (\<exists>j doc. parse_object_id x pid = Some j \<and> find_by_id j (buses s) \<noteq> None \<and>
               fst (update_bus v x s cookie pid b) =
                 Response 200 (BusInfo (text_of v BusUpdated) doc) \<and>
               b_id doc = j \<and> reflects_body x b doc \<and>
               find_by_id j (buses (snd (update_bus v x s cookie pid b))) = Some doc))"
proof (intro conjI impI)
  assume "parse_object_id x pid = None"
  then show "update_bus v x s cookie pid b = (reply v 500 UpdateError, s)"
    by (simp add: update_bus_def guarded_admin [OF assms])
next
  assume "seats b = JStr t \<and> t \<noteq> [] \<and> js_to_number x t = None"
  then have "cast_update x (v = ServerJs) b = None"
    by (simp add: cast_update_def update_path_def split: option.split)
  then show "update_bus v x s cookie pid b = (reply v 500 UpdateError, s)"
    by (simp add: update_bus_def guarded_admin [OF assms] split: option.split)
next
  assume c: "parse_object_id x pid = Some i \<and>
          cast_string (busNumber b) = Val bn \<and> bn \<noteq> [] \<and>
          cast_number x (seats b) = Val n \<and>
          cast_string (route b) = Val r \<and> r \<noteq> [] \<and>
          cast_string (departurePoint b) = Val dp \<and> dp \<noteq> [] \<and>
          cast_string (destinationPoint b) = Val ds \<and> ds \<noteq> [] \<and>
          cast_string (departureTime b) = Val dt \<and> dt \<noteq> [] \<and>
          nb = \<lparr>b_id = i, b_busNumber = Some bn, b_seats = Some n, b_route = Some r,
                b_departurePoint = Some dp, b_destinationPoint = Some ds,
                b_departureTime = Some dt\<rparr>"
  then have cu: "cast_update x (v = ServerJs) b =
      Some \<lparr>set_busNumber = SetTo (Some bn), set_seats = SetTo (Some n),
            set_route = SetTo (Some r), set_departurePoint = SetTo (Some dp),
            set_destinationPoint = SetTo (Some ds), set_departureTime = SetTo (Some dt)\<rparr>"
    by (simp add: cast_update_def update_path_def)
  {
    assume "find_by_id i (buses s) = None"
    with c cu show "update_bus v x s cookie pid b = (reply v 404 BusNotFoundOnUpdate, s)"
      by (simp add: update_bus_def guarded_admin [OF assms])
  }
  {
    assume "find_by_id i (buses s) \<noteq> None"
    then obtain old where old: "find_by_id i (buses s) = Some old" by auto
    then have "b_id old = i" by (simp add: find_by_id_Some)
    with c cu old show "update_bus v x s cookie pid b =
                 (Response 200 (BusInfo (text_of v BusUpdated) nb),
                  s\<lparr>buses := replace_first i nb (buses s)\<rparr>)"
      by (simp add: update_bus_def guarded_admin [OF assms] apply_update_def)
    from c old show "find_by_id i (replace_first i nb (buses s)) = Some nb"
      by (simp add: find_by_id_replace_first)
  }
next
  assume ok: "status (fst (update_bus v x s cookie pid b)) = 200"
  then obtain j where j: "parse_object_id x pid = Some j"
    by (cases "parse_object_id x pid") (auto simp add: update_bus_def guarded_admin [OF assms])
  from ok j obtain u where u: "cast_update x (v = ServerJs) b = Some u"
    by (cases "cast_update x (v = ServerJs) b")
       (auto simp add: update_bus_def guarded_admin [OF assms])
  from ok j u obtain old where old: "find_by_id j (buses s) = Some old"
    by (cases "find_by_id j (buses s)")
       (auto simp add: update_bus_def guarded_admin [OF assms])
  have id: "b_id (apply_update u old) = j"
    using old by (simp add: apply_update_def find_by_id_Some)
  have "fst (update_bus v x s cookie pid b) =
      Response 200 (BusInfo (text_of v BusUpdated) (apply_update u old))"
    using j u old by (simp add: update_bus_def guarded_admin [OF assms])
  moreover have "find_by_id j (buses (snd (update_bus v x s cookie pid b))) =
      Some (apply_update u old)"
    using j u old id
    by (simp add: update_bus_def guarded_admin [OF assms] find_by_id_replace_first)
  ultimately show "\<exists>j doc. parse_object_id x pid = Some j \<and> find_by_id j (buses s) \<noteq> None \<and>
               fst (update_bus v x s cookie pid b) =
                 Response 200 (BusInfo (text_of v BusUpdated) doc) \<and>
               b_id doc = j \<and> reflects_body x b doc \<and>
               find_by_id j (buses (snd (update_bus v x s cookie pid b))) = Some doc"
    using j old id cast_update_reflects [OF u, of old] by auto
qed

theorem update_bus_checked_witness:
  "sess_userId (load_session sample_state (Some 5)) \<noteq> None \<and>
   sess_role (load_session sample_state (Some 5)) = Some ''admin'' \<and>
   parse_object_id sample_ext ''000000000000000000000004'' = Some 4 \<and>
   parse_object_id sample_ext ''000000000000000000000009'' = Some 9 \<and>
   find_by_id 4 (buses sample_state) \<noteq> None \<and>
   find_by_id 9 (buses sample_state) = None \<and>
   update_bus Part001 sample_ext sample_state (Some 5) ''000000000000000000000004'' sample_body =
     (Response 200 (BusInfo ''Bus updated successfully''
        \<lparr>b_id = 4, b_busNumber = Some ''12A'', b_seats = Some 40, b_route = Some ''R1'',
          b_departurePoint = Some ''A'', b_destinationPoint = Some ''B'',
          b_departureTime = Some ''08:00''\<rparr>),
      sample_state\<lparr>buses :=
        [\<lparr>b_id = 4, b_busNumber = Some ''12A'', b_seats = Some 40, b_route = Some ''R1'',
          b_departurePoint = Some ''A'', b_destinationPoint = Some ''B'',
          b_departureTime = Some ''08:00''\<rparr>]\<rparr>) \<and>
   update_bus Part001 sample_ext sample_state (Some 5) ''000000000000000000000009'' sample_body =
     (Response 404 (Message ''Bus not found''), sample_state)"
proof -
  have f: "find_by_id 4 (buses sample_state) \<noteq> None" "find_by_id 9 (buses sample_state) = None"
    by (simp_all add: find_by_id_def sample_state_def)
  have r: "replace_first 4 nb (buses sample_state) = [nb]" for nb
    by (simp add: sample_state_def)
  have c: "cast_string (busNumber sample_body) = Val ''12A''"
          "cast_number sample_ext (seats sample_body) = Val 40"
          "cast_string (route sample_body) = Val ''R1''"
          "cast_string (departurePoint sample_body) = Val ''A''"
          "cast_string (destinationPoint sample_body) = Val ''B''"
          "cast_string (departureTime sample_body) = Val ''08:00''"
    by (simp_all add: sample_body_def)
  from update_bus_checked
         [OF sample_admin, where x = sample_ext and pid = "''000000000000000000000004''"
            and v = Part001 and b = sample_body and i = 4 and bn = "''12A''" and n = 40
            and r = "''R1''" and dp = "''A''" and ds = "''B''" and dt = "''08:00''"
            and nb = "\<lparr>b_id = 4, b_busNumber = Some ''12A'', b_seats = Some 40, b_route = Some ''R1'',
          b_departurePoint = Some ''A'', b_destinationPoint = Some ''B'',
          b_departureTime = Some ''08:00''\<rparr>"]
       update_bus_checked
         [OF sample_admin, where x = sample_ext and pid = "''000000000000000000000009''"
            and v = Part001 and b = sample_body and i = 9 and bn = "''12A''" and n = 40
            and r = "''R1''" and dp = "''A''" and ds = "''B''" and dt = "''08:00''"
            and nb = "\<lparr>b_id = 9, b_busNumber = Some ''12A'', b_seats = Some 40, b_route = Some ''R1'',
          b_departurePoint = Some ''A'', b_destinationPoint = Some ''B'',
          b_departureTime = Some ''08:00''\<rparr>"]
       f c sample_object_id sample_admin
  show ?thesis by (simp add: reply_def r)
qed

subsection \<open>Create, list, delete\<close>

lemma required_number_Some: "required_number c = Some n \<Longrightarrow> c = Val n"
  by (cases c) auto

lemma new_bus_Some:
  assumes "new_bus x i b = Some nb"
  shows "\<exists>bn n r dp ds dt.
           cast_string (busNumber b) = Val bn \<and> cast_number x (seats b) = Val n \<and>
           cast_string (route b) = Val r \<and> cast_string (departurePoint b) = Val dp \<and>
           cast_string (destinationPoint b) = Val ds \<and> cast_string (departureTime b) = Val dt \<and>
           nb = \<lparr>b_id = i, b_busNumber = Some bn, b_seats = Some n, b_route = Some r,
                 b_departurePoint = Some dp, b_destinationPoint = Some ds,
                 b_departureTime = Some dt\<rparr>"
  using assms
  by (auto simp add: new_bus_def split: option.splits
        dest!: required_string_Some required_number_Some)

lemma delete_first_subset: "set (delete_first i bs) \<subseteq> set bs"
  by (induction bs) auto

lemma delete_first_removes:
  "distinct (map b_id bs) \<Longrightarrow> i \<notin> b_id ` set (delete_first i bs)"
proof (induction bs)
  case Nil
  then show ?case by simp
next
  case (Cons b bs)
  then show ?case by (cases "b_id b = i") auto
qed

lemma next_oid_fresh: "bus_ids_ok s \<Longrightarrow> next_oid s \<notin> b_id ` set (buses s)"
  by (auto simp add: bus_ids_ok_def list_all_iff)

text \<open>
  Claim C8. In a state whose bus ids are pairwise different and below the counter:
  \<^item> after a create that is answered with 201, the list handler returns a record that
    holds the cast value of each submitted field and a new id, the same record the
    create answer carries;
  \<^item> after a delete that is answered with 200, the answer carries the confirmation
    message only, the list handler returns no record with that id, and a second delete
    of the same id is answered with 404.
\<close>

theorem bus_create_delete_roundtrip:
  assumes "bus_ids_ok s"
  shows "(status (fst (create_bus v x s cookie b)) = 201 \<longrightarrow>
            (\<exists>bn n r dp ds dt nb listed.
               cast_string (busNumber b) = Val bn \<and> cast_number x (seats b) = Val n \<and>
               cast_string (route b) = Val r \<and> cast_string (departurePoint b) = Val dp \<and>
               cast_string (destinationPoint b) = Val ds \<and>
               cast_string (departureTime b) = Val dt \<and>
               nb = \<lparr>b_id = next_oid s, b_busNumber = Some bn, b_seats = Some n,
                     b_route = Some r, b_departurePoint = Some dp,
                     b_destinationPoint = Some ds, b_departureTime = Some dt\<rparr> \<and>
               fst (create_bus v x s cookie b) =
                 Response 201 (BusInfo (text_of v BusAdded) nb) \<and>
               b_id nb \<notin> b_id ` set (buses s) \<and>
               fst (list_buses v (snd (create_bus v x s cookie b))) =
                 Response 200 (BusList listed) \<and>
               nb \<in> set listed)) \<and>
         (status (fst (delete_bus v x s cookie pid)) = 200 \<longrightarrow>
            (\<exists>i listed.
               parse_object_id x pid = Some i \<and>
               fst (delete_bus v x s cookie pid) = Response 200 (Message (text_of v BusDeleted)) \<and>
               fst (list_buses v (snd (delete_bus v x s cookie pid))) =
                 Response 200 (BusList listed) \<and>
               i \<notin> b_id ` set listed \<and>
               delete_bus v x (snd (delete_bus v x s cookie pid)) cookie pid =
                 (reply v 404 BusNotFoundOnDelete, snd (delete_bus v x s cookie pid))))"
proof (intro conjI impI)
  let ?h = "if v = ServerJs \<and> some_field_falsy b then (reply v 400 FillAllFields, s)
        else
          (case new_bus x (next_oid s) b of
             None \<Rightarrow> (reply v 500 AddError, s)
           | Some newBus \<Rightarrow>
               (Response 201 (BusInfo (text_of v BusAdded) newBus),
                s\<lparr>buses := buses s @ [newBus], next_oid := Suc (next_oid s)\<rparr>))"
  assume ok: "status (fst (create_bus v x s cookie b)) = 201"
  then have "guarded v s cookie ?h = ?h"
    by (intro guarded_passed) (simp_all add: create_bus_def)
  then have c: "create_bus v x s cookie b = ?h" by (simp add: create_bus_def)
  with ok obtain nb where nb: "new_bus x (next_oid s) b = Some nb"
    by (cases "new_bus x (next_oid s) b") (auto split: if_splits)
  with ok c have r: "create_bus v x s cookie b =
      (Response 201 (BusInfo (text_of v BusAdded) nb),
       s\<lparr>buses := buses s @ [nb], next_oid := Suc (next_oid s)\<rparr>)"
    by (auto split: if_splits)
  from new_bus_Some [OF nb] next_oid_fresh [OF assms] r
  show "\<exists>bn n r dp ds dt nb listed.
               cast_string (busNumber b) = Val bn \<and> cast_number x (seats b) = Val n \<and>
               cast_string (route b) = Val r \<and> cast_string (departurePoint b) = Val dp \<and>
               cast_string (destinationPoint b) = Val ds \<and>
               cast_string (departureTime b) = Val dt \<and>
               nb = \<lparr>b_id = next_oid s, b_busNumber = Some bn, b_seats = Some n,
                     b_route = Some r, b_departurePoint = Some dp,
                     b_destinationPoint = Some ds, b_departureTime = Some dt\<rparr> \<and>
               fst (create_bus v x s cookie b) =
                 Response 201 (BusInfo (text_of v BusAdded) nb) \<and>
               b_id nb \<notin> b_id ` set (buses s) \<and>
               fst (list_buses v (snd (create_bus v x s cookie b))) =
                 Response 200 (BusList listed) \<and>
               nb \<in> set listed"
    by (auto simp add: list_buses_def)
next
  let ?h = "case parse_object_id x pid of
          None \<Rightarrow> (reply v 500 DeleteError, s)
        | Some i \<Rightarrow>
            (case find_by_id i (buses s) of
               None \<Rightarrow> (reply v 404 BusNotFoundOnDelete, s)
             | Some bus \<Rightarrow>
                 (reply v 200 BusDeleted, s\<lparr>buses := delete_first i (buses s)\<rparr>))"
  assume ok: "status (fst (delete_bus v x s cookie pid)) = 200"
  then have g: "guarded v s cookie ?h = ?h"
    by (intro guarded_passed) (simp_all add: delete_bus_def)
  then have c: "delete_bus v x s cookie pid = ?h" by (simp add: delete_bus_def)
  with ok obtain i where i: "parse_object_id x pid = Some i"
    by (cases "parse_object_id x pid") auto
  with ok c obtain old where old: "find_by_id i (buses s) = Some old"
    by (cases "find_by_id i (buses s)") auto
  let ?s' = "s\<lparr>buses := delete_first i (buses s)\<rparr>"
  from c i old have r: "delete_bus v x s cookie pid = (reply v 200 BusDeleted, ?s')"
    by simp
  have gone: "i \<notin> b_id ` set (delete_first i (buses s))"
    using assms by (simp add: bus_ids_ok_def delete_first_removes)
  then have none: "find_by_id i (buses ?s') = None"
    by (simp add: find_by_id_None)
  have admin: "guarded v ?s' cookie k = k" for k
  proof -
    have "load_session ?s' cookie = load_session s cookie"
      by (simp add: load_session_def split: option.split)
    moreover have "authRequired v (load_session s cookie) = None \<and>
         adminRequired v (load_session s cookie) = None"
      using ok by (intro guards_passed [where h = ?h]) (simp_all add: delete_bus_def)
    ultimately show ?thesis by (simp add: guarded_def)
  qed
  have again: "delete_bus v x ?s' cookie pid = (reply v 404 BusNotFoundOnDelete, ?s')"
    using none by (simp add: delete_bus_def admin i)
  from i r gone again
  show "\<exists>i listed.
               parse_object_id x pid = Some i \<and>
               fst (delete_bus v x s cookie pid) = Response 200 (Message (text_of v BusDeleted)) \<and>
               fst (list_buses v (snd (delete_bus v x s cookie pid))) =
                 Response 200 (BusList listed) \<and>
               i \<notin> b_id ` set listed \<and>
               delete_bus v x (snd (delete_bus v x s cookie pid)) cookie pid =
                 (reply v 404 BusNotFoundOnDelete, snd (delete_bus v x s cookie pid))"
    by (simp add: list_buses_def reply_def)
qed

theorem bus_create_delete_roundtrip_witness:
  "bus_ids_ok sample_state \<and>
   status (fst (create_bus Part001 sample_ext sample_state (Some 5) sample_body)) = 201 \<and>
   fst (create_bus Part001 sample_ext sample_state (Some 5) sample_body) =
     Response 201 (BusInfo ''Bus added successfully''
       \<lparr>b_id = 5, b_busNumber = Some ''12A'', b_seats = Some 40, b_route = Some ''R1'',
         b_departurePoint = Some ''A'', b_destinationPoint = Some ''B'',
         b_departureTime = Some ''08:00''\<rparr>) \<and>
   status (fst (delete_bus Part001 sample_ext sample_state (Some 5) ''000000000000000000000004'')) = 200 \<and>
   delete_bus Part001 sample_ext
       (snd (delete_bus Part001 sample_ext sample_state (Some 5) ''000000000000000000000004''))
       (Some 5) ''000000000000000000000004'' =
     (Response 404 (Message ''Bus not found''),
      snd (delete_bus Part001 sample_ext sample_state (Some 5) ''000000000000000000000004''))"
proof -
  have wf: "bus_ids_ok sample_state"
    by (simp add: bus_ids_ok_def sample_state_def)
  have c: "status (fst (create_bus Part001 sample_ext sample_state (Some 5) sample_body)) = 201"
    by (simp add: create_bus_def guarded_admin [OF sample_admin] new_bus_def sample_body_def)
  have d: "status (fst (delete_bus Part001 sample_ext sample_state (Some 5)
      ''000000000000000000000004'')) = 200"
    by (simp add: delete_bus_def guarded_admin [OF sample_admin] sample_object_id)
       (simp add: find_by_id_def sample_state_def)
  have v: "cast_string (busNumber sample_body) = Val ''12A''"
          "cast_number sample_ext (seats sample_body) = Val 40"
          "cast_string (route sample_body) = Val ''R1''"
          "cast_string (departurePoint sample_body) = Val ''A''"
          "cast_string (destinationPoint sample_body) = Val ''B''"
          "cast_string (departureTime sample_body) = Val ''08:00''"
          "next_oid sample_state = 5"
    by (simp_all add: sample_body_def sample_state_def)
  from bus_create_delete_roundtrip
         [OF wf, where v = Part001 and x = sample_ext and cookie = "Some 5" and b = sample_body
            and pid = "''000000000000000000000004''"]
       wf c d v
  show ?thesis by (auto simp add: reply_def)
qed

subsection \<open>The counters\<close>

lemma sessions_below_iff:
  "list_all (\<lambda>p. fst p < n) al = (\<forall>k \<in> fst ` set al. k < n)"
  by (auto simp add: list_all_iff)

lemma save_session_wf:
  assumes "session_ids_ok s"
  shows "session_ids_ok (save_session s cookie d)"
proof (cases "live_sid s cookie")
  case None
  from assms have "\<forall>k \<in> fst ` set (sessions s). k < next_sid s"
    by (simp add: session_ids_ok_def sessions_below_iff)
  then have "\<forall>k \<in> fst ` set (AList.update (next_sid s) d (sessions s)). k < Suc (next_sid s)"
    unfolding dom_update by auto
  with None show ?thesis
    unfolding session_ids_ok_def sessions_below_iff by (simp add: save_session_def)
next
  case (Some k)
  from live_sid_Some [OF Some] obtain e where "map_of (sessions s) k = Some e" by auto
  then have "k \<in> fst ` set (sessions s)" by (force dest: map_of_SomeD)
  moreover from assms have "\<forall>k \<in> fst ` set (sessions s). k < next_sid s"
    by (simp add: session_ids_ok_def sessions_below_iff)
  ultimately have "\<forall>j \<in> fst ` set (AList.update k d (sessions s)). j < next_sid s"
    unfolding dom_update by auto
  with Some show ?thesis
    unfolding session_ids_ok_def sessions_below_iff by (simp add: save_session_def)
qed

lemma map_id_replace_first:
  "b_id nb = i \<Longrightarrow> map b_id (replace_first i nb bs) = map b_id bs"
  by (induction bs) auto

lemma distinct_delete_first:
  "distinct (map b_id bs) \<Longrightarrow> distinct (map b_id (delete_first i bs))"
proof (induction bs)
  case Nil
  then show ?case by simp
next
  case (Cons b bs)
  with delete_first_subset [of i bs] show ?case by auto
qed

lemma bus_ids_ok_map:
  "map b_id (buses t) = map b_id (buses s) \<Longrightarrow> next_oid t = next_oid s \<Longrightarrow>
     bus_ids_ok s \<Longrightarrow> bus_ids_ok t"
proof -
  assume m: "map b_id (buses t) = map b_id (buses s)" and n: "next_oid t = next_oid s"
    and ok: "bus_ids_ok s"
  have "list_all (\<lambda>b. b_id b < k) bs = (\<forall>j \<in> set (map b_id bs). j < k)" for k bs
    by (auto simp add: list_all_iff)
  with m n ok show ?thesis unfolding bus_ids_ok_def by metis
qed

lemma create_bus_ids:
  assumes "bus_ids_ok s"
  shows "bus_ids_ok (snd (create_bus v x s cookie b))"
  unfolding create_bus_def
proof (rule guarded_snd [where P = bus_ids_ok, OF _ assms])
  show "bus_ids_ok (snd (if v = ServerJs \<and> some_field_falsy b then (reply v 400 FillAllFields, s)
        else
          (case new_bus x (next_oid s) b of
             None \<Rightarrow> (reply v 500 AddError, s)
           | Some newBus \<Rightarrow>
               (Response 201 (BusInfo (text_of v BusAdded) newBus),
                s\<lparr>buses := buses s @ [newBus], next_oid := Suc (next_oid s)\<rparr>))))"
    using assms
    by (auto simp add: bus_ids_ok_def list_all_iff less_Suc_eq split: option.split
          dest!: new_bus_Some)
qed

lemma update_bus_ids:
  assumes "bus_ids_ok s"
  shows "bus_ids_ok (snd (update_bus v x s cookie pid b))"
  unfolding update_bus_def
proof (rule guarded_snd [where P = bus_ids_ok, OF _ assms])
  have "map b_id (replace_first i (apply_update u old) (buses s)) = map b_id (buses s)"
    if "find_by_id i (buses s) = Some old" for i u old
    using that by (simp add: map_id_replace_first apply_update_def find_by_id_Some)
  then show "bus_ids_ok (snd (case parse_object_id x pid of
          None \<Rightarrow> (reply v 500 UpdateError, s)
        | Some i \<Rightarrow>
            (case cast_update x (v = ServerJs) b of
               None \<Rightarrow> (reply v 500 UpdateError, s)
             | Some u \<Rightarrow>
                 (case find_by_id i (buses s) of
                    None \<Rightarrow> (reply v 404 BusNotFoundOnUpdate, s)
                  | Some old \<Rightarrow>
                      (Response 200 (BusInfo (text_of v BusUpdated) (apply_update u old)),
                       s\<lparr>buses := replace_first i (apply_update u old) (buses s)\<rparr>)))))"
    using assms by (auto split: option.split intro: bus_ids_ok_map [where s = s])
qed

lemma delete_bus_ids:
  assumes "bus_ids_ok s"
  shows "bus_ids_ok (snd (delete_bus v x s cookie pid))"
  unfolding delete_bus_def
proof (rule guarded_snd [where P = bus_ids_ok, OF _ assms])
  show "bus_ids_ok (snd (case parse_object_id x pid of
          None \<Rightarrow> (reply v 500 DeleteError, s)
        | Some i \<Rightarrow>
            (case find_by_id i (buses s) of
               None \<Rightarrow> (reply v 404 BusNotFoundOnDelete, s)
             | Some bus \<Rightarrow>
                 (reply v 200 BusDeleted, s\<lparr>buses := delete_first i (buses s)\<rparr>))))"
    using assms delete_first_subset
    by (fastforce simp add: bus_ids_ok_def list_all_iff distinct_delete_first split: option.split)
qed

lemma bus_ids_ok_Suc:
  "bus_ids_ok s \<Longrightarrow> bus_ids_ok (s\<lparr>users := us, next_oid := Suc (next_oid s)\<rparr>)"
  by (auto simp add: bus_ids_ok_def list_all_iff less_Suc_eq)

lemma bus_ids_ok_save_session:
  "bus_ids_ok s \<Longrightarrow> bus_ids_ok (save_session s cookie d)"
  by (simp add: bus_ids_ok_def)

lemma session_ids_ok_other:
  "sessions t = sessions s \<Longrightarrow> next_sid t = next_sid s \<Longrightarrow>
     session_ids_ok s \<Longrightarrow> session_ids_ok t"
  by (simp add: session_ids_ok_def)

lemma session_ids_ok_delete:
  "session_ids_ok s \<Longrightarrow> session_ids_ok (s\<lparr>sessions := AList.delete k (sessions s)\<rparr>)"
proof -
  assume "session_ids_ok s"
  then have "\<forall>j \<in> fst ` set (sessions s). j < next_sid s"
    by (simp add: session_ids_ok_def sessions_below_iff)
  with dom_delete_subset [of k "sessions s"]
  have "\<forall>j \<in> fst ` set (AList.delete k (sessions s)). j < next_sid s" by blast
  then show ?thesis
    unfolding session_ids_ok_def sessions_below_iff by simp
qed

text \<open>
  Every handler keeps the counters ahead of the ids in use, so every state the server
  reaches from the empty one satisfies \<open>wf_state\<close>.
\<close>

lemma handle_wf:
  assumes "wf_state s"
  shows "wf_state (snd (handle v x s rq))"
proof (cases rq)
  case (Pair cookie r)
  from assms have b: "bus_ids_ok s" and c: "session_ids_ok s"
    by (simp_all add: wf_state_def)
  show ?thesis
  proof (cases r)
    case (Register uname pw role)
    have "wf_state (save_session (s\<lparr>users := us, next_oid := Suc (next_oid s)\<rparr>) cookie d)"
      for us d
      using bus_ids_ok_Suc [OF b, of us] c
      by (simp add: wf_state_def bus_ids_ok_save_session save_session_wf
            session_ids_ok_other [where s = s])
    with register_state [of v x s cookie uname pw role] assms
    show ?thesis unfolding Pair Register by auto
  next
    case (Login uname pw)
    have "wf_state (save_session s cookie d)" for d
      using b c by (simp add: wf_state_def bus_ids_ok_save_session save_session_wf)
    with login_state [of v x s cookie uname pw] assms
    show ?thesis unfolding Pair Login by auto
  next
    case Logout
    with Pair b c session_ids_ok_delete [OF c] show ?thesis
      by (cases v)
         (simp_all add: wf_state_def logout_def session_destroy_def bus_ids_ok_def
            split: option.split)
  next
    case ListBuses
    with Pair assms show ?thesis by (simp add: list_buses_def)
  next
    case (CreateBus body)
    with Pair b c show ?thesis
      by (simp add: wf_state_def create_bus_ids
            session_ids_ok_other [where s = s] create_bus_sessions)
  next
    case (UpdateBus pid body)
    with Pair b c show ?thesis
      by (simp add: wf_state_def update_bus_ids
            session_ids_ok_other [where s = s] update_bus_sessions)
  next
    case (DeleteBus pid)
    with Pair b c show ?thesis
      by (simp add: wf_state_def delete_bus_ids
            session_ids_ok_other [where s = s] delete_bus_sessions)
  qed
qed

lemma run_wf: "wf_state s \<Longrightarrow> wf_state (run v x s rqs)"
  by (induction rqs arbitrary: s) (simp_all add: handle_wf)

lemma reachable_wf: "wf_state (run v x initial_state rqs)"
  by (rule run_wf) (simp add: wf_state_def bus_ids_ok_def session_ids_ok_def initial_state_def)

subsection \<open>An update that omits fields\<close>

text \<open>
  Claim C10 says that fields omitted from an update are left as they are. Whether they are
  depends on \<open>omit_undefined\<close>, that is on the version of Mongoose, which neither file
  fixes. Where \<^verbatim>\<open>undefined\<close> keys are removed from the update document, an update that
  supplies no field answers 200 with the stored record and changes nothing. Where they
  are sent to the database, the same request makes part_001 store null in all six fields,
  and makes the update validators of server.js reject.
\<close>

lemma apply_update_keep:
  "apply_update \<lparr>set_busNumber = Keep, set_seats = Keep, set_route = Keep,
      set_departurePoint = Keep, set_destinationPoint = Keep, set_departureTime = Keep\<rparr> b = b"
  by (cases b) (simp add: apply_update_def)

lemma replace_first_same:
  "find_by_id i bs = Some old \<Longrightarrow> replace_first i old bs = bs"
  by (induction bs) (auto simp add: find_by_id_def)

lemma update_empty_body_kept:
  assumes "sess_userId (load_session s cookie) \<noteq> None"
      and "sess_role (load_session s cookie) = Some ''admin''"
      and "parse_object_id x pid = Some i"
      and "find_by_id i (buses s) = Some old"
      and "omit_undefined x"
  shows "update_bus v x s cookie pid empty_body =
           (Response 200 (BusInfo (text_of v BusUpdated) old), s)"
proof -
  have "cast_update x validators empty_body =
      Some \<lparr>set_busNumber = Keep, set_seats = Keep, set_route = Keep,
            set_departurePoint = Keep, set_destinationPoint = Keep, set_departureTime = Keep\<rparr>"
    for validators
    using assms(5) by (simp add: cast_update_def update_path_def empty_body_def)
  with assms(3,4) show ?thesis
    by (simp add: update_bus_def guarded_admin [OF assms(1,2)] apply_update_keep
          replace_first_same)
qed

lemma update_empty_body_nulled:
  assumes "sess_userId (load_session s cookie) \<noteq> None"
      and "sess_role (load_session s cookie) = Some ''admin''"
      and "parse_object_id x pid = Some i"
      and "find_by_id i (buses s) = Some old"
      and "\<not> omit_undefined x"
  shows "update_bus Part001 x s cookie pid empty_body =
           (Response 200 (BusInfo (text_of Part001 BusUpdated)
              \<lparr>b_id = b_id old, b_busNumber = None, b_seats = None, b_route = None,
                b_departurePoint = None, b_destinationPoint = None, b_departureTime = None\<rparr>),
            s\<lparr>buses := replace_first i
              \<lparr>b_id = b_id old, b_busNumber = None, b_seats = None, b_route = None,
                b_departurePoint = None, b_destinationPoint = None, b_departureTime = None\<rparr>
              (buses s)\<rparr>) \<and>
         update_bus ServerJs x s cookie pid empty_body = (reply ServerJs 500 UpdateError, s)"
proof -
  have "cast_update x False empty_body =
      Some \<lparr>set_busNumber = SetTo None, set_seats = SetTo None, set_route = SetTo None,
            set_departurePoint = SetTo None, set_destinationPoint = SetTo None,
            set_departureTime = SetTo None\<rparr>"
    using assms(5) by (simp add: cast_update_def update_path_def empty_body_def)
  moreover have "cast_update x True empty_body = None"
    using assms(5) by (simp add: cast_update_def update_path_def empty_body_def)
  ultimately show ?thesis
    using assms(3,4)
    by (simp add: update_bus_def guarded_admin [OF assms(1,2)] apply_update_def)
qed

end
